theory Spec2Isabelle
  imports Complex_Main
begin

section \<open>JavaScript values\<close>

text \<open>
  The widget receives its envelope from the host as a JSON value or as nothing at all, and
  probes it by duck typing.  A value is therefore one of the JSON shapes or \<open>undefined\<close>.
  Numbers are the finite ones (JSON carries no NaN and no infinity); a finite double is a
  rational number.  An object is the list of its own properties.
\<close>

datatype jsval =
    JUndefined
  | JNull
  | JBool bool
  | JNum rat
  | JStr string
  | JArr "jsval list"
  | JObj "(string \<times> jsval) list"

text \<open>
  What the program can throw.  Every thrown value is an \<open>Error\<close> instance with a
  message; messages of the built-in errors are worded as V8 words them.
\<close>

datatype thrown =
    TypeError string
  | SyntaxError string
  | Error string
  | Unmodelled

text \<open>
  \<open>Unmodelled\<close> is not a JavaScript error: it marks an operation whose operand would first
  be converted from a string or an object to a number, a conversion this development does
  not describe.  It can only arise from envelopes that break the declared types.
\<close>

definition message :: "thrown \<Rightarrow> string" where
  "message e = (case e of TypeError m \<Rightarrow> m | SyntaxError m \<Rightarrow> m | Error m \<Rightarrow> m | Unmodelled \<Rightarrow> [])"

text \<open>ToBoolean: the test of \<open>if\<close>, \<open>&&\<close>, \<open>||\<close> and \<open>!\<close>.\<close>

fun truthy :: "jsval \<Rightarrow> bool" where
  "truthy JUndefined = False"
| "truthy JNull = False"
| "truthy (JBool b) = b"
| "truthy (JNum n) = (n \<noteq> 0)"
| "truthy (JStr s) = (s \<noteq> [])"
| "truthy (JArr xs) = True"
| "truthy (JObj kvs) = True"

text \<open>\<open>a || b\<close> and \<open>a ?? b\<close> on values.\<close>

definition js_or :: "jsval \<Rightarrow> jsval \<Rightarrow> jsval" where
  "js_or a b = (if truthy a then a else b)"

definition nullish :: "jsval \<Rightarrow> bool" where
  "nullish v = (v = JUndefined \<or> v = JNull)"

definition js_coalesce :: "jsval \<Rightarrow> jsval \<Rightarrow> jsval" where
  "js_coalesce a b = (if nullish a then b else a)"

text \<open>
  Reading a property of a value that is neither \<open>undefined\<close> nor \<open>null\<close>.  The program reads
  the keys \<open>result\<close>, \<open>structuredContent\<close>, \<open>error\<close>, \<open>loggedMeals\<close>, \<open>dailyTotals\<close>,
  \<open>foodDescription\<close>, \<open>choices\<close>, \<open>message\<close>, \<open>content\<close>, \<open>length\<close> and the index \<open>0\<close>;
  of these only \<open>length\<close> and \<open>0\<close> exist on strings and arrays, and none is inherited by
  a plain object.
\<close>

fun get_prop :: "jsval \<Rightarrow> string \<Rightarrow> jsval" where
  "get_prop (JObj kvs) k = (case map_of kvs k of Some v \<Rightarrow> v | None \<Rightarrow> JUndefined)"
| "get_prop (JArr xs) k =
     (if k = ''length'' then JNum (of_nat (length xs))
      else if k = ''0'' then (case xs of [] \<Rightarrow> JUndefined | x # rest \<Rightarrow> x)
      else JUndefined)"
| "get_prop (JStr s) k =
     (if k = ''length'' then JNum (of_nat (length s))
      else if k = ''0'' then (case s of [] \<Rightarrow> JUndefined | c # rest \<Rightarrow> JStr [c])
      else JUndefined)"
| "get_prop v k = JUndefined"

definition show_nullish :: "jsval \<Rightarrow> string" where
  "show_nullish v = (if v = JNull then ''null'' else ''undefined'')"

text \<open>\<open>v.k\<close>: throws a TypeError on \<open>undefined\<close> and \<open>null\<close>.\<close>

definition member :: "jsval \<Rightarrow> string \<Rightarrow> thrown + jsval" where
  "member v k =
     (if nullish v
      then Inl (TypeError (''Cannot read properties of '' @ show_nullish v @ '' (reading '' @ [CHR 0x27] @ k @ [CHR 0x27] @ '')''))
      else Inr (get_prop v k))"

text \<open>\<open>v?.k\<close>: \<open>undefined\<close> on \<open>undefined\<close> and \<open>null\<close>, never throws.\<close>

definition opt_member :: "jsval \<Rightarrow> string \<Rightarrow> jsval" where
  "opt_member v k = (if nullish v then JUndefined else get_prop v k)"

text \<open>\<open>typeof v === 'object'\<close>: true of \<open>null\<close>, arrays and objects.\<close>

fun typeof_object :: "jsval \<Rightarrow> bool" where
  "typeof_object JNull = True"
| "typeof_object (JArr xs) = True"
| "typeof_object (JObj kvs) = True"
| "typeof_object v = False"

text \<open>\<open>k in v\<close>: throws a TypeError unless \<open>v\<close> is an object or an array.\<close>

fun js_in :: "string \<Rightarrow> jsval \<Rightarrow> thrown + bool" where
  "js_in k (JObj kvs) = Inr (map_of kvs k \<noteq> None)"
| "js_in k (JArr xs) = Inr (k = ''length'' \<or> (k = ''0'' \<and> xs \<noteq> []))"
| "js_in k v = Inl (TypeError (''Cannot use '' @ [CHR 0x27] @ ''in'' @ [CHR 0x27] @ '' operator to search for '' @ [CHR 0x27] @ k @ [CHR 0x27]))"

text \<open>Sequencing of computations that may throw.\<close>

definition and_then :: "thrown + 'a \<Rightarrow> ('a \<Rightarrow> thrown + 'b) \<Rightarrow> thrown + 'b" where
  "and_then m f = (case m of Inl e \<Rightarrow> Inl e | Inr x \<Rightarrow> f x)"

section \<open>The envelope normalizer (app/nmacros/page.tsx, Macros, lines 46-60)\<close>

definition extract_mealData :: "jsval \<Rightarrow> thrown + jsval" where
  "extract_mealData toolOutput =
     (if truthy (opt_member (opt_member toolOutput ''result'') ''structuredContent'') then
        and_then (member toolOutput ''result'') (\<lambda>r. member r ''structuredContent'')
      else if truthy (opt_member toolOutput ''structuredContent'') then
        member toolOutput ''structuredContent''
      else if truthy (opt_member toolOutput ''result'') then
        member toolOutput ''result''
      else if truthy toolOutput \<and> typeof_object toolOutput then
        and_then (js_in ''loggedMeals'' toolOutput) (\<lambda>hasLogged.
          if hasLogged then Inr toolOutput
          else and_then (js_in ''dailyTotals'' toolOutput) (\<lambda>hasTotals.
            if hasTotals then Inr toolOutput else Inr JNull))
      else Inr JNull)"

subsection \<open>The resolution order as the specification words it\<close>

text \<open>
  The value found by walking a path of keys through nested objects; \<open>undefined\<close> as soon as
  a step is missing.
\<close>

fun at_path :: "string list \<Rightarrow> jsval \<Rightarrow> jsval" where
  "at_path [] v = v"
| "at_path (k # ks) (JObj kvs) = (case map_of kvs k of Some w \<Rightarrow> at_path ks w | None \<Rightarrow> JUndefined)"
| "at_path (k # ks) v = JUndefined"

text \<open>
  A path rule matches when a value is present at the path.  Presence is JavaScript truth:
  every object, so every MealData, is present; \<open>undefined\<close> and \<open>null\<close> are not.
\<close>

definition path_rule :: "string list \<Rightarrow> jsval \<Rightarrow> jsval option" where
  "path_rule ks env = (let v = at_path ks env in if truthy v then Some v else None)"

fun has_field :: "jsval \<Rightarrow> string \<Rightarrow> bool" where
  "has_field (JObj kvs) k = (k \<in> fst ` set kvs)"
| "has_field v k = False"

definition self_rule :: "jsval \<Rightarrow> jsval option" where
  "self_rule env =
     (if has_field env ''loggedMeals'' \<or> has_field env ''dailyTotals'' then Some env else None)"

definition resolution_rules :: "(jsval \<Rightarrow> jsval option) list" where
  "resolution_rules =
     [path_rule [''result'', ''structuredContent''],
      path_rule [''structuredContent''],
      path_rule [''result''],
      self_rule]"

fun first_match :: "(jsval \<Rightarrow> jsval option) list \<Rightarrow> jsval \<Rightarrow> jsval" where
  "first_match [] env = JNull"
| "first_match (r # rs) env = (case r env of Some v \<Rightarrow> v | None \<Rightarrow> first_match rs env)"

definition normalized :: "jsval \<Rightarrow> jsval" where
  "normalized env = (case extract_mealData env of Inr mealData \<Rightarrow> mealData | Inl e \<Rightarrow> JNull)"

section \<open>The rendering state (app/nmacros/page.tsx, Macros, lines 62-159)\<close>

text \<open>Lines 63 and 64: \<open>mealData?.error || toolOutput?.error\<close> and \<open>mealData?.loggedMeals || []\<close>.\<close>

definition extracted_error :: "jsval \<Rightarrow> jsval \<Rightarrow> jsval" where
  "extracted_error mealData toolOutput =
     js_or (opt_member mealData ''error'') (opt_member toolOutput ''error'')"

definition meals_of :: "jsval \<Rightarrow> jsval" where
  "meals_of mealData = js_or (opt_member mealData ''loggedMeals'') (JArr [])"

text \<open>
  ToNumber, as far as it is described here: \<open>None\<close> is NaN.  Strings, arrays and objects
  are outside (see \<open>Unmodelled\<close>).
\<close>

fun to_number :: "jsval \<Rightarrow> thrown + rat option" where
  "to_number JUndefined = Inr None"
| "to_number JNull = Inr (Some 0)"
| "to_number (JBool b) = Inr (Some (if b then 1 else 0))"
| "to_number (JNum n) = Inr (Some n)"
| "to_number v = Inl Unmodelled"

text \<open>\<open>v > c\<close> for a numeric literal \<open>c\<close>: false when \<open>v\<close> converts to NaN.\<close>

definition js_gt :: "jsval \<Rightarrow> rat \<Rightarrow> thrown + bool" where
  "js_gt v c = and_then (to_number v) (\<lambda>n. Inr (case n of None \<Rightarrow> False | Some x \<Rightarrow> c < x))"

fun is_array :: "jsval \<Rightarrow> bool" where
  "is_array (JArr xs) = True"
| "is_array v = False"

text \<open>
  Line 84: \<open>'loggedMeals' in toolOutput && Array.isArray(toolOutput.loggedMeals) &&
  toolOutput.loggedMeals.length > 0\<close>.
\<close>

definition hasMeals :: "jsval \<Rightarrow> thrown + bool" where
  "hasMeals toolOutput =
     and_then (js_in ''loggedMeals'' toolOutput) (\<lambda>present.
       if \<not> present then Inr False
       else and_then (member toolOutput ''loggedMeals'') (\<lambda>lm.
         if \<not> is_array lm then Inr False
         else and_then (member lm ''length'') (\<lambda>len. js_gt len 0)))"

text \<open>
  The body of the effect (lines 67-95).  Every branch ends in \<open>setIsLoading\<close>; the result is
  the value it stores.  The effect does not read the previous \<open>isLoading\<close>.
\<close>

definition loading_effect :: "jsval \<Rightarrow> jsval \<Rightarrow> thrown + bool" where
  "loading_effect meals toolOutput =
     and_then (member meals ''length'') (\<lambda>len.
     and_then (js_gt len 0) (\<lambda>haveMeals.
       if haveMeals then Inr False
       else if toolOutput = JNull then Inr True
       else if truthy toolOutput \<and> typeof_object toolOutput then
         and_then (js_in ''foodDescription'' toolOutput) (\<lambda>hasFoodDescription.
         and_then (hasMeals toolOutput) (\<lambda>hasMeals.
           if hasFoodDescription \<and> \<not> hasMeals then Inr True else Inr False))
       else Inr False))"

text \<open>
  What a render returns.  \<open>ErrorView\<close> carries the value shown as the message.  \<open>ReadyView\<close>
  carries the \<open>dailyTotals\<close> value of the daily-totals block when that block is rendered,
  and the \<open>meal\<close> prop of each MealCard, in order.
\<close>

datatype view =
    ErrorView jsval
  | LoadingView
  | EmptyView
  | ReadyView "jsval option" "jsval list"

datatype state = Error_state | Loading | Empty | Ready

fun state_of :: "view \<Rightarrow> state" where
  "state_of (ErrorView e) = Error_state"
| "state_of LoadingView = Loading"
| "state_of EmptyView = Empty"
| "state_of (ReadyView totals meals) = Ready"

text \<open>One render of the component, with the current value of the \<open>isLoading\<close> state.\<close>

definition Macros :: "bool \<Rightarrow> jsval \<Rightarrow> thrown + view" where
  "Macros isLoading toolOutput =
     and_then (extract_mealData toolOutput) (\<lambda>mealData.
       let error = extracted_error mealData toolOutput;
           meals = meals_of mealData
       in if truthy error then Inr (ErrorView error)
          else if isLoading then Inr LoadingView
          else and_then (member meals ''length'') (\<lambda>len.
            if len = JNum 0 then Inr EmptyView
            else (case meals of
                    JArr ms \<Rightarrow> Inr (ReadyView None ms)
                  | _ \<Rightarrow> Inl (TypeError ''meals.map is not a function''))))"

text \<open>The effect of that component, run after a render for a new envelope.\<close>

definition Macros_effect :: "jsval \<Rightarrow> thrown + bool" where
  "Macros_effect toolOutput =
     and_then (extract_mealData toolOutput) (\<lambda>mealData.
       loading_effect (meals_of mealData) toolOutput)"

text \<open>
  An envelope arrives: the component renders with the stale \<open>isLoading\<close> (\<open>True\<close> on mount),
  the effect stores a new \<open>isLoading\<close>, and the component renders again.  The second render
  is the one that stays on screen.
\<close>

definition settled_view :: "jsval \<Rightarrow> thrown + view" where
  "settled_view toolOutput =
     and_then (Macros_effect toolOutput) (\<lambda>isLoading. Macros isLoading toolOutput)"

definition settled_state :: "jsval \<Rightarrow> thrown + state" where
  "settled_state toolOutput = and_then (settled_view toolOutput) (\<lambda>v. Inr (state_of v))"

subsection \<open>The words of the state rules\<close>

definition error_of :: "jsval \<Rightarrow> jsval" where
  "error_of env = extracted_error (normalized env) env"

text \<open>The extraction as the specification writes it, with \<open>??\<close>.\<close>

definition error_by_coalescing :: "jsval \<Rightarrow> jsval" where
  "error_by_coalescing env =
     js_coalesce (opt_member (normalized env) ''error'')
       (js_coalesce (opt_member env ''error'') JNull)"

definition derived_loggedMeals :: "jsval \<Rightarrow> jsval" where
  "derived_loggedMeals env = opt_member (normalized env) ''loggedMeals''"

text \<open>The declared type \<open>loggedMeals?: Meal[]\<close>: the field is absent, null or an array.\<close>

fun array_or_absent :: "jsval \<Rightarrow> bool" where
  "array_or_absent JUndefined = True"
| "array_or_absent JNull = True"
| "array_or_absent (JArr xs) = True"
| "array_or_absent v = False"

definition loggedMeals_typed :: "jsval \<Rightarrow> bool" where
  "loggedMeals_typed env = array_or_absent (derived_loggedMeals env)"

fun absent_or_empty :: "jsval \<Rightarrow> bool" where
  "absent_or_empty JUndefined = True"
| "absent_or_empty JNull = True"
| "absent_or_empty (JArr xs) = (xs = [])"
| "absent_or_empty v = False"

fun nonempty_array :: "jsval \<Rightarrow> bool" where
  "nonempty_array (JArr (x # xs)) = True"
| "nonempty_array v = False"

definition exposes_meals :: "jsval \<Rightarrow> bool" where
  "exposes_meals env = (has_field env ''loggedMeals'' \<and> nonempty_array (get_prop env ''loggedMeals''))"

definition loading_rule :: "jsval \<Rightarrow> bool" where
  "loading_rule env =
     (env = JNull \<or>
      (absent_or_empty (derived_loggedMeals env) \<and> has_field env ''foodDescription'' \<and> \<not> exposes_meals env))"

fun elements :: "jsval \<Rightarrow> jsval list" where
  "elements (JArr xs) = xs"
| "elements v = []"


section \<open>The earlier component (first component of unnamed/part_000, lines 35-125)\<close>

text \<open>
  This version probes two paths only, keeps no \<open>isLoading\<close> state, and renders a
  daily-totals block in front of the meal cards under \<open>mealData?.dailyTotals && (...)\<close>.
\<close>

definition Macros_with_totals :: "jsval \<Rightarrow> thrown + view" where
  "Macros_with_totals toolOutput =
     (let mealData =
            js_or (opt_member (opt_member toolOutput ''result'') ''structuredContent'')
              (js_or (opt_member toolOutput ''structuredContent'') JNull);
          error = extracted_error mealData toolOutput;
          meals = meals_of mealData
      in if truthy error then Inr (ErrorView error)
         else and_then (member meals ''length'') (\<lambda>len.
           if len = JNum 0 then Inr EmptyView
           else (case meals of
                   JArr ms \<Rightarrow>
                     Inr (ReadyView
                            (if truthy (opt_member mealData ''dailyTotals'')
                             then Some (opt_member mealData ''dailyTotals'') else None)
                            ms)
                 | _ \<Rightarrow> Inl (TypeError ''meals.map is not a function''))))"

section \<open>The canonical data and its presenter\<close>

text \<open>The interfaces \<open>Nutrients\<close>, \<open>Ingredient\<close>, \<open>Meal\<close> and \<open>MealData\<close> of the components.\<close>

record Nutrients =
  calories :: rat
  protein :: rat
  carbs :: rat
  fat :: rat

record Ingredient =
  name :: string
  brand :: "string option"
  serving_info :: string
  nutrients :: Nutrients

record Meal =
  meal_name :: string
  meal_size :: "string option"
  ingredients :: "Ingredient list"
  total_nutrients :: Nutrients

record MealData =
  dailyTotals :: "Nutrients option"
  loggedMeals :: "Meal list option"
  error :: "string option"

text \<open>The JSON value of each: optional fields are left out when absent.\<close>

definition optional_field :: "string \<Rightarrow> ('a \<Rightarrow> jsval) \<Rightarrow> 'a option \<Rightarrow> (string \<times> jsval) list" where
  "optional_field k enc x = (case x of None \<Rightarrow> [] | Some v \<Rightarrow> [(k, enc v)])"

definition json_of_Nutrients :: "Nutrients \<Rightarrow> jsval" where
  "json_of_Nutrients n =
     JObj [(''calories'', JNum (calories n)), (''protein'', JNum (protein n)),
           (''carbs'', JNum (carbs n)), (''fat'', JNum (fat n))]"

definition json_of_Ingredient :: "Ingredient \<Rightarrow> jsval" where
  "json_of_Ingredient i =
     JObj ([(''name'', JStr (name i))] @ optional_field ''brand'' JStr (brand i) @
           [(''serving_info'', JStr (serving_info i)),
            (''nutrients'', json_of_Nutrients (nutrients i))])"

definition json_of_Meal :: "Meal \<Rightarrow> jsval" where
  "json_of_Meal m =
     JObj ([(''meal_name'', JStr (meal_name m))] @ optional_field ''meal_size'' JStr (meal_size m) @
           [(''ingredients'', JArr (map json_of_Ingredient (ingredients m))),
            (''total_nutrients'', json_of_Nutrients (total_nutrients m))])"

definition json_of_MealData :: "MealData \<Rightarrow> jsval" where
  "json_of_MealData d =
     JObj (optional_field ''dailyTotals'' json_of_Nutrients (dailyTotals d) @
           optional_field ''loggedMeals'' (\<lambda>ms. JArr (map json_of_Meal ms)) (loggedMeals d) @
           optional_field ''error'' JStr (error d))"

text \<open>
  \<open>Math.round\<close>: the integer nearest to its argument, the larger one at a tie.  It is exact
  on a finite double.
\<close>

definition Math_round :: "rat \<Rightarrow> int" where
  "Math_round x = \<lfloor>x + 1 / 2\<rfloor>"

text \<open>Rounding to the nearest integer, halves away from zero.\<close>

definition round_half_away :: "rat \<Rightarrow> int" where
  "round_half_away x = (if x < 0 then - \<lfloor>\<bar>x\<bar> + 1 / 2\<rfloor> else \<lfloor>\<bar>x\<bar> + 1 / 2\<rfloor>)"

text \<open>
  What stands between two tags.  React prints a number child as its digits, \<open>0\<close> included,
  and prints nothing for \<open>false\<close>, \<open>null\<close> and \<open>undefined\<close>.
\<close>

datatype react_child = Number_child int | Text_child string | No_child

fun blank :: "react_child \<Rightarrow> bool" where
  "blank (Number_child n) = False"
| "blank (Text_child s) = (s = [])"
| "blank No_child = True"

text \<open>The four cells of a nutrition grid: \<open>{Math.round(n.calories)}\<close> and so on.\<close>

definition nutrition_grid :: "Nutrients \<Rightarrow> react_child list" where
  "nutrition_grid n =
     [Number_child (Math_round (calories n)), Number_child (Math_round (protein n)),
      Number_child (Math_round (carbs n)), Number_child (Math_round (fat n))]"

text \<open>
  The daily-totals block (unnamed/part_000, lines 82-114): the children of each of the
  four value cells, \<open>{Math.round(...)}\<close> for calories and \<open>{Math.round(...)}g\<close> for the others.
\<close>

definition daily_totals_block :: "Nutrients \<Rightarrow> react_child list list" where
  "daily_totals_block n =
     [[Number_child (Math_round (calories n))],
      [Number_child (Math_round (protein n)), Text_child ''g''],
      [Number_child (Math_round (carbs n)), Text_child ''g''],
      [Number_child (Math_round (fat n)), Text_child ''g'']]"

text \<open>MealCard (app/nmacros/page.tsx, lines 167-330), with the \<open>showBreakdown\<close> state.\<close>

record ingredient_row =
  row_name :: string
  row_serving :: string
  row_values :: "react_child list"

record card =
  card_title :: string
  card_size :: "string option"
  card_totals :: "react_child list"
  card_breakdown :: "ingredient_row list option"
  card_toggle :: "string option"

definition ingredient_line :: "Ingredient \<Rightarrow> ingredient_row" where
  "ingredient_line i =
     \<lparr>row_name = name i, row_serving = serving_info i, row_values = nutrition_grid (nutrients i)\<rparr>"

definition MealCard :: "Meal \<Rightarrow> bool \<Rightarrow> card" where
  "MealCard meal showBreakdown =
     (let hasMultipleIngredients = (length (ingredients meal) > 1)
      in \<lparr>card_title = meal_name meal,
          card_size = (case meal_size meal of None \<Rightarrow> None | Some s \<Rightarrow> if s \<noteq> [] then Some s else None),
          card_totals = nutrition_grid (total_nutrients meal),
          card_breakdown =
            (if showBreakdown \<and> hasMultipleIngredients
             then Some (map ingredient_line (ingredients meal)) else None),
          card_toggle =
            (if hasMultipleIngredients
             then Some (if showBreakdown then ''- Hide Breakdown'' else ''+ Show Breakdown'')
             else None)\<rparr>)"

text \<open>The data model takes every nutrient value to be non-negative.\<close>

definition non_negative :: "Nutrients \<Rightarrow> bool" where
  "non_negative n = (0 \<le> calories n \<and> 0 \<le> protein n \<and> 0 \<le> carbs n \<and> 0 \<le> fat n)"

text \<open>Every number a card shows, with the value it was computed from.\<close>

definition nutrient_values :: "Nutrients \<Rightarrow> rat list" where
  "nutrient_values n = [calories n, protein n, carbs n, fat n]"

definition shown_numbers :: "react_child list \<Rightarrow> int list" where
  "shown_numbers cs = concat (map (\<lambda>c. case c of Number_child n \<Rightarrow> [n] | _ \<Rightarrow> []) cs)"

text \<open>
  Two meals for the examples, with the reference values the service prompt gives for a
  slice of pizza and for a burger.
\<close>

definition pizza :: Meal where
  "pizza =
     \<lparr>meal_name = ''Pizza'', meal_size = Some ''1 slice'',
      ingredients =
        [\<lparr>name = ''Pizza slice'', brand = Some ''Generic'', serving_info = ''1 slice'',
          nutrients = \<lparr>calories = 285, protein = 12, carbs = 36, fat = 10\<rparr>\<rparr>],
      total_nutrients = \<lparr>calories = 285, protein = 12, carbs = 36, fat = 10\<rparr>\<rparr>"

definition burger :: Meal where
  "burger =
     \<lparr>meal_name = ''Burger'', meal_size = None,
      ingredients =
        [\<lparr>name = ''Burger'', brand = None, serving_info = ''1 burger'',
          nutrients = \<lparr>calories = 540, protein = 25, carbs = 40, fat = 25\<rparr>\<rparr>],
      total_nutrients = \<lparr>calories = 540, protein = 25, carbs = 40, fat = 25\<rparr>\<rparr>"

section \<open>The tool handlers\<close>

record ContentWidget =
  widget_id :: string
  title :: string
  templateUri :: string
  invoking :: string
  invoked :: string
  html :: string
  description :: string
  widgetDomain :: string

definition widgetMeta :: "ContentWidget \<Rightarrow> jsval" where
  "widgetMeta widget =
     JObj [(''openai/outputTemplate'', JStr (templateUri widget)),
           (''openai/toolInvocation/invoking'', JStr (invoking widget)),
           (''openai/toolInvocation/invoked'', JStr (invoked widget)),
           (''openai/widgetAccessible'', JBool False),
           (''openai/resultCanProduceWidget'', JBool True)]"

text \<open>The widget; \<open>macrosHtml\<close> is the fetched page and \<open>baseURL\<close> comes from the deployment.\<close>

definition macrosWidget :: "string \<Rightarrow> string \<Rightarrow> ContentWidget" where
  "macrosWidget macrosHtml baseURL =
     \<lparr>widget_id = ''analyze_food'',
      title = ''Analyze Food Macros'',
      templateUri = ''ui://widget/macros-template.html'',
      invoking = ''Analyzing food nutrition...'',
      invoked = ''Food analysis complete'',
      html = macrosHtml,
      description = ''Analyzes food descriptions and displays nutritional information in meal cards'',
      widgetDomain = baseURL\<rparr>"

text \<open>A tool result: the text of its single content item, the payload and the metadata.\<close>

record tool_result =
  content_text :: string
  structuredContent :: jsval
  meta :: jsval

text \<open>The \<open>catch\<close> block shared by the three handlers.  Every thrown value is an Error.\<close>

definition caught :: "ContentWidget \<Rightarrow> string \<Rightarrow> thrown \<Rightarrow> tool_result" where
  "caught widget foodDescription e =
     \<lparr>content_text = ''Error processing food analysis request: '' @ foodDescription,
      structuredContent = JObj [(''error'', JStr (message e))],
      meta = widgetMeta widget\<rparr>"

text \<open>
  \<open>try { body } catch (error) { ... }\<close> around the whole handler: whatever the body throws
  reaches the \<open>catch\<close> block, and the block itself throws nothing.
\<close>

definition try_catch :: "thrown + tool_result \<Rightarrow> (thrown \<Rightarrow> tool_result) \<Rightarrow> tool_result" where
  "try_catch body handler = (case body of Inr r \<Rightarrow> r | Inl e \<Rightarrow> handler e)"

subsection \<open>The handler that accepts analyzedData (second part of app/nmacros/page.tsx, lines 500-548)\<close>

text \<open>
  The input schema leaves \<open>analyzedData\<close> optional; when given it is an object with
  \<open>dailyTotals\<close> (four numbers) and \<open>loggedMeals\<close> (an array of anything).
\<close>

record AnalyzedData =
  totals :: Nutrients
  logged :: "jsval list"

definition json_of_AnalyzedData :: "AnalyzedData \<Rightarrow> jsval" where
  "json_of_AnalyzedData a =
     JObj [(''dailyTotals'', json_of_Nutrients (totals a)), (''loggedMeals'', JArr (logged a))]"

definition analyzedData_arg :: "AnalyzedData option \<Rightarrow> jsval" where
  "analyzedData_arg a = (case a of None \<Rightarrow> JUndefined | Some d \<Rightarrow> json_of_AnalyzedData d)"

definition resubmit_instruction :: string where
  "resubmit_instruction =
     ''Please call this tool with the analyzedData parameter containing the analyzed meal data.''"

definition analyze_food_body :: "ContentWidget \<Rightarrow> string \<Rightarrow> jsval \<Rightarrow> thrown + tool_result" where
  "analyze_food_body widget foodDescription analyzedData =
     (if truthy (opt_member analyzedData ''loggedMeals'') \<and> truthy (opt_member analyzedData ''dailyTotals'') then
        and_then (member analyzedData ''dailyTotals'') (\<lambda>dt.
        and_then (member analyzedData ''loggedMeals'') (\<lambda>lm.
          Inr \<lparr>content_text = ''Food analyzed: '' @ foodDescription,
               structuredContent = JObj [(''dailyTotals'', dt), (''loggedMeals'', lm)],
               meta = widgetMeta widget\<rparr>))
      else
        Inr \<lparr>content_text =
               ''Please analyze '' @ [CHR 0x22] @ foodDescription @ [CHR 0x22] @
               '' using your nutrition knowledge and call this tool with the analyzedData parameter populated with the complete meal data.'',
             structuredContent =
               JObj [(''foodDescription'', JStr foodDescription), (''error'', JStr resubmit_instruction)],
             meta = widgetMeta widget\<rparr>)"

definition analyze_food :: "ContentWidget \<Rightarrow> string \<Rightarrow> jsval \<Rightarrow> tool_result" where
  "analyze_food widget foodDescription analyzedData =
     try_catch (analyze_food_body widget foodDescription analyzedData) (caught widget foodDescription)"

subsection \<open>The handler of app/mcp/route.ts (lines 143-186)\<close>

definition analyze_food_route :: "ContentWidget \<Rightarrow> string \<Rightarrow> tool_result" where
  "analyze_food_route widget foodDescription =
     try_catch
       (Inr \<lparr>content_text =
               ''Food to analyze: '' @ foodDescription @ [CHR 0x0A, CHR 0x0A] @
               ''Please analyze this food using your nutrition knowledge and return the nutritional data in the JSON structure specified in the tool description.'',
             structuredContent = JObj [(''foodDescription'', JStr foodDescription)],
             meta = widgetMeta widget\<rparr>)
       (caught widget foodDescription)"

text \<open>A payload carries nutrition numbers when it has a \<open>dailyTotals\<close> or a \<open>loggedMeals\<close> field.\<close>

definition carries_nutrition :: "jsval \<Rightarrow> bool" where
  "carries_nutrition sc = (has_field sc ''dailyTotals'' \<or> has_field sc ''loggedMeals'')"

subsection \<open>The handler that calls the inference service (unnamed/part_001, lines 138-291)\<close>

text \<open>
  The outside world of one call: the credential in the environment, and what the single
  request to the service comes back with.  \<open>fetch\<close> either rejects (a TypeError with a
  message) or resolves to a response with its \<open>ok\<close> flag and the outcome of
  \<open>response.json()\<close>, which is a SyntaxError on a body that is not JSON.
\<close>

datatype fetch_outcome =
    Rejected string
  | Responded bool "thrown + jsval"

text \<open>\<open>!apiKey\<close> for \<open>process.env.OPENAI_API_KEY\<close>: the variable is unset or empty.\<close>

definition not_configured :: "string option \<Rightarrow> bool" where
  "not_configured apiKey = (apiKey = None \<or> apiKey = Some [])"

definition missing_key_message :: string where
  "missing_key_message = ''OpenAI API key not configured. Please set OPENAI_API_KEY environment variable.''"

definition invalid_format_message :: string where
  "invalid_format_message = ''Invalid response format from AI. Please try again.''"

text \<open>
  Two built-ins of the language are parameters: \<open>ToString\<close>, the conversion that
  \<open>new Error(m)\<close> and \<open>JSON.parse(content)\<close> apply to their argument, and \<open>JSON_parse\<close>, the
  parser on a string, which gives a value or throws a SyntaxError.  The prompt sent to the
  service is built from a fixed template and the description; building it cannot throw,
  and the reply is given by \<open>upstream\<close>.
\<close>

definition analyze_food_live_body ::
  "(jsval \<Rightarrow> thrown + string) \<Rightarrow> (string \<Rightarrow> thrown + jsval) \<Rightarrow> ContentWidget \<Rightarrow> string option \<Rightarrow>
     fetch_outcome \<Rightarrow> string \<Rightarrow> thrown + tool_result" where
  "analyze_food_live_body ToString JSON_parse widget apiKey upstream foodDescription =
     (if not_configured apiKey then
        Inr \<lparr>content_text = ''Error: '' @ missing_key_message,
             structuredContent = JObj [(''error'', JStr missing_key_message)],
             meta = widgetMeta widget\<rparr>
      else
        (case upstream of
           Rejected m \<Rightarrow> Inl (TypeError m)
         | Responded ok body \<Rightarrow>
             if \<not> ok then
               and_then body (\<lambda>errorData.
               and_then (member errorData ''error'') (\<lambda>err.
               and_then (ToString (js_or (opt_member err ''message'') (JStr ''Failed to process food data''))) (\<lambda>m.
                 Inl (Error m))))
             else
               and_then body (\<lambda>responseData.
               and_then (member responseData ''choices'') (\<lambda>choices.
               and_then (member choices ''0'') (\<lambda>choice.
               and_then (member choice ''message'') (\<lambda>msg.
               and_then (member msg ''content'') (\<lambda>content.
               and_then (ToString content) (\<lambda>txt.
               and_then (JSON_parse txt) (\<lambda>data.
               and_then (member data ''dailyTotals'') (\<lambda>dt.
                 if \<not> truthy dt then Inl (Error invalid_format_message)
                 else
                   and_then (member data ''loggedMeals'') (\<lambda>lm.
                     if \<not> truthy lm then Inl (Error invalid_format_message)
                     else
                       Inr \<lparr>content_text = ''Food analyzed: '' @ foodDescription,
                            structuredContent = JObj [(''dailyTotals'', dt), (''loggedMeals'', lm)],
                            meta = widgetMeta widget\<rparr>)))))))))))"

definition analyze_food_live ::
  "(jsval \<Rightarrow> thrown + string) \<Rightarrow> (string \<Rightarrow> thrown + jsval) \<Rightarrow> ContentWidget \<Rightarrow> string option \<Rightarrow>
     fetch_outcome \<Rightarrow> string \<Rightarrow> tool_result" where
  "analyze_food_live ToString JSON_parse widget apiKey upstream foodDescription =
     try_catch (analyze_food_live_body ToString JSON_parse widget apiKey upstream foodDescription)
       (caught widget foodDescription)"

text \<open>
  The reply of the service as the handler reads it: the text sits at
  \<open>choices[0].message.content\<close>.
\<close>

definition chat_completion :: "string \<Rightarrow> jsval" where
  "chat_completion txt =
     JObj [(''choices'', JArr [JObj [(''message'', JObj [(''content'', JStr txt)])]])]"

fun string_or_falsy :: "jsval \<Rightarrow> bool" where
  "string_or_falsy (JStr s) = True"
| "string_or_falsy v = (\<not> truthy v)"

text \<open>
  What the platform supplies is worded: the errors of the parser and of the conversion, a
  rejected request and an unreadable body all carry a message that is not empty; the
  conversion leaves a string as it is; and the message of an error reply of the service,
  when there is one, is a string.
\<close>

definition platform_worded ::
  "(jsval \<Rightarrow> thrown + string) \<Rightarrow> (string \<Rightarrow> thrown + jsval) \<Rightarrow> fetch_outcome \<Rightarrow> bool" where
  "platform_worded ToString JSON_parse upstream =
     ((\<forall>s e. JSON_parse s = Inl e \<longrightarrow> message e \<noteq> []) \<and>
      (\<forall>v e. ToString v = Inl e \<longrightarrow> message e \<noteq> []) \<and>
      (\<forall>s. ToString (JStr s) = Inr s) \<and>
      (case upstream of
         Rejected m \<Rightarrow> m \<noteq> []
       | Responded ok (Inl e) \<Rightarrow> message e \<noteq> []
       | Responded ok (Inr v) \<Rightarrow>
           ok \<or> string_or_falsy (opt_member (get_prop v ''error'') ''message'')))"

text \<open>A successful payload: the two fields of the parsed reply, both truthy.\<close>

fun success_payload :: "jsval \<Rightarrow> bool" where
  "success_payload (JObj [(k1, dt), (k2, lm)]) =
     (k1 = ''dailyTotals'' \<and> k2 = ''loggedMeals'' \<and> truthy dt \<and> truthy lm)"
| "success_payload v = False"

text \<open>The payload of a failure: exactly one field, \<open>error\<close>, holding a string.\<close>

fun error_payload :: "jsval \<Rightarrow> string option" where
  "error_payload (JObj [(k, JStr m)]) = (if k = ''error'' then Some m else None)"
| "error_payload v = None"


section \<open>The normalizer never throws and follows the resolution order\<close>


lemma opt_member_at_path: "k \<noteq> ''length'' \<Longrightarrow> k \<noteq> ''0'' \<Longrightarrow> opt_member v k = at_path [k] v"
  by (cases v) (simp_all add: opt_member_def nullish_def split: option.splits)

lemma member_truthy:
  "truthy (opt_member v k) \<Longrightarrow> member v k = Inr (opt_member v k)"
  by (auto simp: member_def opt_member_def)

lemma at_path_snoc: "at_path [k, j] v = at_path [j] (at_path [k] v)"
  by (cases v) (simp_all split: option.splits)

lemma js_in_has_field:
  "truthy env \<Longrightarrow> typeof_object env \<Longrightarrow> k \<noteq> ''length'' \<Longrightarrow> k \<noteq> ''0'' \<Longrightarrow> js_in k env = Inr (has_field env k)"
  by (cases env) (auto simp: map_of_eq_None_iff)

lemma has_field_object: "has_field env k \<Longrightarrow> truthy env \<and> typeof_object env"
  by (cases env) auto

lemma extract_mealData_first_match:
  "extract_mealData env = Inr (first_match resolution_rules env)"
proof -
  let ?a = "opt_member (opt_member env ''result'') ''structuredContent''"
  let ?b = "opt_member env ''structuredContent''"
  let ?c = "opt_member env ''result''"
  have a: "?a = at_path [''result'', ''structuredContent''] env"
    by (simp add: opt_member_at_path at_path_snoc [of "''result''"])
  have b: "?b = at_path [''structuredContent''] env" by (simp add: opt_member_at_path)
  have c: "?c = at_path [''result''] env" by (simp add: opt_member_at_path)
  show ?thesis
  proof (cases "truthy ?a")
    case True
    then have r: "\<not> nullish ?c" and e: "\<not> nullish env"
      by (auto simp: opt_member_def nullish_def split: if_splits)
    have "and_then (member env ''result'') (\<lambda>r. member r ''structuredContent'') = Inr ?a"
      using r e by (simp add: and_then_def member_def opt_member_def)
    with True show ?thesis
      using a by (simp add: extract_mealData_def resolution_rules_def path_rule_def Let_def)
  next
    case na: False
    show ?thesis
    proof (cases "truthy ?b")
      case True
      with na show ?thesis using a b
        by (simp add: extract_mealData_def resolution_rules_def path_rule_def member_truthy Let_def)
    next
      case nb: False
      show ?thesis
      proof (cases "truthy ?c")
        case True
        with na nb show ?thesis using a b c
          by (simp add: extract_mealData_def resolution_rules_def path_rule_def member_truthy Let_def)
      next
        case nc: False
        show ?thesis
        proof (cases "truthy env \<and> typeof_object env")
          case True
          with na nb nc show ?thesis using a b c
            by (simp add: extract_mealData_def resolution_rules_def path_rule_def Let_def
                js_in_has_field and_then_def self_rule_def)
        next
          case False
          then have "\<not> has_field env ''loggedMeals''" "\<not> has_field env ''dailyTotals''"
            using has_field_object by blast+
          with False na nb nc show ?thesis using a b c
            by (auto simp add: extract_mealData_def resolution_rules_def path_rule_def Let_def self_rule_def)
        qed
      qed
    qed
  qed
qed


lemma normalized_eq: "normalized env = first_match resolution_rules env"
  by (simp add: normalized_def extract_mealData_first_match)

lemma first_match_JNull: "first_match resolution_rules JNull = JNull"
  by (simp add: resolution_rules_def path_rule_def self_rule_def)

lemma first_match_JUndefined: "first_match resolution_rules JUndefined = JNull"
  by (simp add: resolution_rules_def path_rule_def self_rule_def)

lemma rule_value_not_null:
  "r \<in> set resolution_rules \<Longrightarrow> r env = Some v \<Longrightarrow> v \<noteq> JNull"
  by (auto simp: resolution_rules_def path_rule_def self_rule_def Let_def split: if_splits)

lemma first_match_null_iff:
  "(first_match resolution_rules env = JNull) = list_all (\<lambda>r. r env = None) resolution_rules"
proof -
  have "\<And>rs. set rs \<subseteq> set resolution_rules \<Longrightarrow>
          (first_match rs env = JNull) = list_all (\<lambda>r. r env = None) rs"
  proof -
    fix rs show "set rs \<subseteq> set resolution_rules \<Longrightarrow>
          (first_match rs env = JNull) = list_all (\<lambda>r. r env = None) rs"
      by (induction rs) (auto split: option.splits dest: rule_value_not_null)
  qed
  then show ?thesis by blast
qed

text \<open>
  Claim C1.  For every raw envelope the normalizer returns, without throwing, the value of
  the first rule that matches, in the order (1) \<open>envelope.result.structuredContent\<close>,
  (2) \<open>envelope.structuredContent\<close>, (3) \<open>envelope.result\<close>, (4) the envelope itself when
  it has a \<open>loggedMeals\<close> or \<open>dailyTotals\<close> field; the value is the one at the matched path,
  unchanged.  For an absent envelope, for \<open>null\<close>, and exactly when no rule matches, the
  result is \<open>null\<close>.
\<close>

theorem normalizer_resolution_order:
  "extract_mealData env = Inr (first_match resolution_rules env) \<and>
   extract_mealData JUndefined = Inr JNull \<and>
   extract_mealData JNull = Inr JNull \<and>
   ((first_match resolution_rules env = JNull) = list_all (\<lambda>r. r env = None) resolution_rules)"
  by (simp only: extract_mealData_first_match first_match_JNull first_match_JUndefined first_match_null_iff simp_thms)

text \<open>
  The order at work: the first path wins over the second, \<open>result\<close> is taken as MealData
  when it carries no \<open>structuredContent\<close>, and an envelope of no recognised shape gives \<open>null\<close>.
\<close>

theorem normalizer_resolution_order_witness:
  "extract_mealData (JObj [(''result'', JObj [(''structuredContent'', JObj [(''loggedMeals'', JArr [])])]),
                           (''structuredContent'', JObj [(''error'', JStr ''late'')])])
     = Inr (JObj [(''loggedMeals'', JArr [])]) \<and>
   extract_mealData (JObj [(''result'', JObj [(''dailyTotals'', JNull)])]) = Inr (JObj [(''dailyTotals'', JNull)]) \<and>
   extract_mealData (JObj [(''dailyTotals'', JNull)]) = Inr (JObj [(''dailyTotals'', JNull)]) \<and>
   extract_mealData (JObj [(''foodDescription'', JStr ''pizza'')]) = Inr JNull \<and>
   extract_mealData (JStr ''pizza'') = Inr JNull"
  using normalizer_resolution_order [of "JObj [(''result'', JObj [(''structuredContent'', JObj [(''loggedMeals'', JArr [])])]),
                           (''structuredContent'', JObj [(''error'', JStr ''late'')])]"]
        normalizer_resolution_order [of "JObj [(''result'', JObj [(''dailyTotals'', JNull)])]"]
        normalizer_resolution_order [of "JObj [(''dailyTotals'', JNull)]"]
        normalizer_resolution_order [of "JObj [(''foodDescription'', JStr ''pizza'')]"]
        normalizer_resolution_order [of "JStr ''pizza''"]
  by (simp add: resolution_rules_def path_rule_def self_rule_def)

section \<open>The rendering state after an envelope has arrived\<close>


lemma meals_of_typed:
  "array_or_absent (opt_member md ''loggedMeals'') \<Longrightarrow>
   meals_of md = JArr (elements (opt_member md ''loggedMeals''))"
  by (cases "opt_member md ''loggedMeals''") (simp_all add: meals_of_def js_or_def)

lemma length_JArr: "member (JArr ms) ''length'' = Inr (JNum (of_nat (length ms)))"
  by (simp add: member_def nullish_def)

lemma js_gt_length: "js_gt (JNum (of_nat (length ms))) 0 = Inr (ms \<noteq> [])"
  by (simp add: js_gt_def and_then_def)

lemma js_gt_zero: "js_gt (JNum 0) 0 = Inr False"
  by (simp add: js_gt_def and_then_def)

lemma hasMeals_exposes:
  "truthy env \<Longrightarrow> typeof_object env \<Longrightarrow> hasMeals env = Inr (exposes_meals env)"
proof (cases env)
  case (JObj kvs)
  show ?thesis
  proof (cases "map_of kvs ''loggedMeals''")
    case None
    then have "''loggedMeals'' \<notin> fst ` set kvs" by (simp add: map_of_eq_None_iff)
    with None JObj show ?thesis by (simp add: hasMeals_def exposes_meals_def and_then_def)
  next
    case (Some lm)
    then have f: "''loggedMeals'' \<in> fst ` set kvs" by (metis map_of_eq_None_iff option.distinct(1))
    show ?thesis
    proof (cases lm)
      case (JArr xs)
      with Some JObj f show ?thesis
        by (cases xs) (simp_all add: hasMeals_def exposes_meals_def and_then_def member_def nullish_def js_gt_def)
    qed (use Some JObj f in \<open>simp_all add: hasMeals_def exposes_meals_def and_then_def member_def nullish_def\<close>)
  qed
qed (simp_all add: hasMeals_def exposes_meals_def and_then_def)

lemma loading_effect_typed:
  "loading_effect (JArr ms) env =
     Inr (ms = [] \<and> (env = JNull \<or> (has_field env ''foodDescription'' \<and> \<not> exposes_meals env)))"
proof (cases "ms = []")
  case False
  then show ?thesis by (simp add: loading_effect_def length_JArr js_gt_length and_then_def)
next
  case True
  show ?thesis
  proof (cases "truthy env \<and> typeof_object env")
    case obj: True
    then have "env \<noteq> JNull" by auto
    with True obj show ?thesis
      by (simp add: loading_effect_def length_JArr js_gt_zero and_then_def
          js_in_has_field hasMeals_exposes)
  next
    case False
    then have "\<not> has_field env ''foodDescription''" using has_field_object by blast
    with True False show ?thesis
      by (auto simp add: loading_effect_def length_JArr js_gt_zero and_then_def)
  qed
qed

lemma derived_JNull: "derived_loggedMeals JNull = JUndefined"
  by (simp add: derived_loggedMeals_def normalized_eq first_match_JNull opt_member_def nullish_def)

lemma Macros_effect_typed:
  assumes "loggedMeals_typed env"
  shows "Macros_effect env = Inr (loading_rule env)"
proof -
  let ?d = "derived_loggedMeals env"
  have t: "array_or_absent (opt_member (first_match resolution_rules env) ''loggedMeals'')"
    using assms by (simp add: loggedMeals_typed_def derived_loggedMeals_def normalized_eq)
  have e: "(elements ?d = []) = absent_or_empty ?d"
    using assms by (cases ?d) (simp_all add: loggedMeals_typed_def)
  have "Macros_effect env =
        Inr (elements ?d = [] \<and> (env = JNull \<or> (has_field env ''foodDescription'' \<and> \<not> exposes_meals env)))"
    by (simp add: Macros_effect_def extract_mealData_first_match and_then_def meals_of_typed [OF t]
        loading_effect_typed derived_loggedMeals_def normalized_eq)
  also have "\<dots> = Inr (loading_rule env)"
    using e by (auto simp: loading_rule_def derived_JNull)
  finally show ?thesis .
qed

lemma Macros_typed:
  assumes "loggedMeals_typed env"
  shows "Macros isLoading env =
     Inr (if truthy (error_of env) then ErrorView (error_of env)
          else if isLoading then LoadingView
          else if elements (derived_loggedMeals env) = [] then EmptyView
          else ReadyView None (elements (derived_loggedMeals env)))"
proof -
  have t: "array_or_absent (opt_member (first_match resolution_rules env) ''loggedMeals'')"
    using assms by (simp add: loggedMeals_typed_def derived_loggedMeals_def normalized_eq)
  show ?thesis
    by (simp add: Macros_def extract_mealData_first_match and_then_def meals_of_typed [OF t]
        length_JArr Let_def error_of_def derived_loggedMeals_def normalized_eq)
qed

lemma settled_view_typed:
  assumes "loggedMeals_typed env"
  shows "settled_view env =
     Inr (if truthy (error_of env) then ErrorView (error_of env)
          else if loading_rule env then LoadingView
          else if elements (derived_loggedMeals env) = [] then EmptyView
          else ReadyView None (elements (derived_loggedMeals env)))"
  by (simp add: settled_view_def Macros_effect_typed [OF assms] Macros_typed [OF assms] and_then_def)

lemma Macros_error:
  "truthy (error_of env) \<Longrightarrow> Macros isLoading env = Inr (ErrorView (error_of env))"
  by (simp add: Macros_def extract_mealData_first_match and_then_def Let_def error_of_def normalized_eq)


lemma state_of_settled:
  assumes "loggedMeals_typed env"
  shows "settled_state env =
     Inr (if truthy (error_of env) then Error_state
          else if loading_rule env then Loading
          else if elements (derived_loggedMeals env) = [] then Empty
          else Ready)"
  by (simp add: settled_state_def settled_view_typed [OF assms] and_then_def)

text \<open>
  Claim C2, as stated, fails on the empty string.  The component extracts the error with
  \<open>||\<close> and tests it with \<open>if (error)\<close>, so an error field holding \<open>""\<close>, a string that is
  not null, counts as no error: the envelope \<open>{ structuredContent: { error: "" } }\<close> renders
  the Empty state.
\<close>

theorem empty_error_string_is_not_Error:
  "error_by_coalescing (JObj [(''structuredContent'', JObj [(''error'', JStr [])])]) = JStr [] \<and>
   error_by_coalescing (JObj [(''structuredContent'', JObj [(''error'', JStr [])])]) \<noteq> JNull \<and>
   Macros False (JObj [(''structuredContent'', JObj [(''error'', JStr [])])]) = Inr EmptyView \<and>
   settled_state (JObj [(''structuredContent'', JObj [(''error'', JStr [])])]) = Inr Empty"
  by (simp add: error_by_coalescing_def normalized_eq resolution_rules_def path_rule_def self_rule_def
      js_coalesce_def nullish_def opt_member_def settled_state_def settled_view_def Macros_effect_def
      Macros_def extract_mealData_first_match and_then_def meals_of_def js_or_def extracted_error_def
      loading_effect_def member_def js_gt_def hasMeals_def)

text \<open>
  Claim C2, amended.  For every envelope whose extracted error
  \<open>mealData?.error || toolOutput?.error\<close> is truthy (for a string: not empty), every render
  returns the Error view showing that value, whatever the \<open>isLoading\<close> flag and whatever
  meals the envelope carries; no other state is considered.
\<close>

theorem truthy_error_yields_Error:
  "truthy (error_of env) \<Longrightarrow>
     Macros isLoading env = Inr (ErrorView (error_of env)) \<and>
     (loggedMeals_typed env \<longrightarrow> settled_state env = Inr Error_state)"
  by (simp add: Macros_error state_of_settled)

text \<open>
  The envelope \<open>{ structuredContent: { error: "rate limited", loggedMeals: [pizza] } }\<close>
  shows the message although a meal is present.
\<close>

theorem truthy_error_yields_Error_witness:
  "truthy (error_of (JObj [(''structuredContent'', JObj [(''error'', JStr ''rate limited''), (''loggedMeals'', JArr [json_of_Meal pizza])])])) \<and>
   loggedMeals_typed (JObj [(''structuredContent'', JObj [(''error'', JStr ''rate limited''), (''loggedMeals'', JArr [json_of_Meal pizza])])]) \<and>
   Macros False (JObj [(''structuredContent'', JObj [(''error'', JStr ''rate limited''), (''loggedMeals'', JArr [json_of_Meal pizza])])])
     = Inr (ErrorView (JStr ''rate limited'')) \<and>
   settled_state (JObj [(''structuredContent'', JObj [(''error'', JStr ''rate limited''), (''loggedMeals'', JArr [json_of_Meal pizza])])])
     = Inr Error_state"
proof -
  let ?e = "JObj [(''structuredContent'', JObj [(''error'', JStr ''rate limited''), (''loggedMeals'', JArr [json_of_Meal pizza])])]"
  have n: "normalized ?e = JObj [(''error'', JStr ''rate limited''), (''loggedMeals'', JArr [json_of_Meal pizza])]"
    by (simp add: normalized_eq resolution_rules_def path_rule_def self_rule_def)
  have e: "error_of ?e = JStr ''rate limited''"
    by (simp add: error_of_def n extracted_error_def js_or_def opt_member_def nullish_def)
  have t: "loggedMeals_typed ?e"
    by (simp add: loggedMeals_typed_def derived_loggedMeals_def n opt_member_def nullish_def)
  have h: "truthy (error_of ?e)" by (simp add: e)
  show ?thesis using truthy_error_yields_Error [OF h, of False] t e by simp
qed

text \<open>
  Claim C3.  For every envelope with no extracted error (and \<open>loggedMeals\<close> of its declared
  type), the state that stays on screen is Loading exactly when (a) the envelope is \<open>null\<close>,
  or (b) the derived \<open>loggedMeals\<close> is absent or empty and the envelope has a
  \<open>foodDescription\<close> field but exposes no non-empty \<open>loggedMeals\<close> array.  The state meant is
  the one after the effect has stored \<open>isLoading\<close>; the render before it uses the stale flag.
\<close>

theorem Loading_exactly_when:
  "loggedMeals_typed env \<Longrightarrow> \<not> truthy (error_of env) \<Longrightarrow>
     (settled_state env = Inr Loading) = loading_rule env"
  by (simp add: state_of_settled)

text \<open>
  \<open>{ foodDescription: "pizza and burger" }\<close> and \<open>null\<close> are Loading; an envelope with a meal
  and \<open>{ loggedMeals: [] }\<close> are not.
\<close>

theorem Loading_exactly_when_witness:
  "settled_state (JObj [(''foodDescription'', JStr ''pizza and burger'')]) = Inr Loading \<and>
   loading_rule (JObj [(''foodDescription'', JStr ''pizza and burger'')]) \<and>
   settled_state JNull = Inr Loading \<and>
   settled_state (JObj [(''foodDescription'', JStr ''pizza''), (''loggedMeals'', JArr [json_of_Meal pizza])]) \<noteq> Inr Loading \<and>
   settled_state (JObj [(''loggedMeals'', JArr [])]) \<noteq> Inr Loading"
proof -
  let ?a = "JObj [(''foodDescription'', JStr ''pizza and burger'')]"
  let ?c = "JObj [(''foodDescription'', JStr ''pizza''), (''loggedMeals'', JArr [json_of_Meal pizza])]"
  let ?d = "JObj [(''loggedMeals'', JArr [])]"
  have n: "normalized ?a = JNull" "normalized JNull = JNull" "normalized ?c = ?c" "normalized ?d = ?d"
    by (simp_all add: normalized_eq resolution_rules_def path_rule_def self_rule_def)
  have t: "loggedMeals_typed ?a" "loggedMeals_typed JNull" "loggedMeals_typed ?c" "loggedMeals_typed ?d"
    by (simp_all add: loggedMeals_typed_def derived_loggedMeals_def n opt_member_def nullish_def)
  have e: "\<not> truthy (error_of ?a)" "\<not> truthy (error_of JNull)" "\<not> truthy (error_of ?c)" "\<not> truthy (error_of ?d)"
    by (simp_all add: error_of_def n extracted_error_def js_or_def opt_member_def nullish_def)
  have r: "loading_rule ?a" "loading_rule JNull" "\<not> loading_rule ?c" "\<not> loading_rule ?d"
    by (simp_all add: loading_rule_def derived_loggedMeals_def n opt_member_def nullish_def exposes_meals_def)
  show ?thesis
    using Loading_exactly_when [OF t(1) e(1)] Loading_exactly_when [OF t(2) e(2)]
      Loading_exactly_when [OF t(3) e(3)] Loading_exactly_when [OF t(4) e(4)] r
    by simp
qed

text \<open>
  Claim C4.  For every envelope (with \<open>loggedMeals\<close> of its declared type) the settled
  render is one of the four states.  With no extracted error and the Loading rule not
  met, it is Empty when the derived \<open>loggedMeals\<close> has length zero, and Ready, with one card
  per meal in order, when it has length at least one.
\<close>

theorem Empty_or_Ready:
  "loggedMeals_typed env \<Longrightarrow>
     (\<exists>s. settled_state env = Inr s) \<and>
     (\<not> truthy (error_of env) \<and> \<not> loading_rule env \<longrightarrow>
        (length (elements (derived_loggedMeals env)) = 0 \<longrightarrow>
           settled_view env = Inr EmptyView \<and> settled_state env = Inr Empty) \<and>
        (length (elements (derived_loggedMeals env)) \<ge> 1 \<longrightarrow>
           settled_view env = Inr (ReadyView None (elements (derived_loggedMeals env))) \<and>
           settled_state env = Inr Ready))"
  by (auto simp add: state_of_settled settled_view_typed)

text \<open>
  \<open>{ loggedMeals: [] }\<close> is Empty; two meals under \<open>result.structuredContent\<close> are Ready.
\<close>

theorem Empty_or_Ready_witness:
  "settled_state (JObj [(''loggedMeals'', JArr [])]) = Inr Empty \<and>
   settled_view (JObj [(''result'', JObj [(''structuredContent'', JObj [(''loggedMeals'', JArr [json_of_Meal pizza, json_of_Meal burger])])])])
     = Inr (ReadyView None [json_of_Meal pizza, json_of_Meal burger])"
proof -
  let ?d = "JObj [(''loggedMeals'', JArr [])]"
  let ?r = "JObj [(''result'', JObj [(''structuredContent'', JObj [(''loggedMeals'', JArr [json_of_Meal pizza, json_of_Meal burger])])])]"
  have n: "normalized ?d = ?d" "normalized ?r = JObj [(''loggedMeals'', JArr [json_of_Meal pizza, json_of_Meal burger])]"
    by (simp_all add: normalized_eq resolution_rules_def path_rule_def self_rule_def)
  have d: "derived_loggedMeals ?d = JArr []" "derived_loggedMeals ?r = JArr [json_of_Meal pizza, json_of_Meal burger]"
    by (simp_all add: derived_loggedMeals_def n opt_member_def nullish_def)
  have t: "loggedMeals_typed ?d" "loggedMeals_typed ?r"
    by (simp_all add: loggedMeals_typed_def d)
  have e: "\<not> truthy (error_of ?d)" "\<not> truthy (error_of ?r)"
    by (simp_all add: error_of_def n extracted_error_def js_or_def opt_member_def nullish_def)
  have r: "\<not> loading_rule ?d" "\<not> loading_rule ?r"
    by (simp_all add: loading_rule_def d exposes_meals_def)
  show ?thesis
    using Empty_or_Ready [OF t(1)] Empty_or_Ready [OF t(2)] e r d by simp
qed

section \<open>The handlers that need no service\<close>

lemma json_of_AnalyzedData_fields:
  "opt_member (json_of_AnalyzedData a) ''loggedMeals'' = JArr (logged a)"
  "opt_member (json_of_AnalyzedData a) ''dailyTotals'' = json_of_Nutrients (totals a)"
  "member (json_of_AnalyzedData a) ''loggedMeals'' = Inr (JArr (logged a))"
  "member (json_of_AnalyzedData a) ''dailyTotals'' = Inr (json_of_Nutrients (totals a))"
  by (simp_all add: json_of_AnalyzedData_def opt_member_def member_def nullish_def)

lemma truthy_json_of_Nutrients: "truthy (json_of_Nutrients n)"
  by (simp add: json_of_Nutrients_def)

lemma analyze_food_supplied:
  "analyze_food widget foodDescription (analyzedData_arg (Some a)) =
     \<lparr>content_text = ''Food analyzed: '' @ foodDescription,
      structuredContent = json_of_AnalyzedData a,
      meta = widgetMeta widget\<rparr>"
  by (simp add: analyze_food_def analyze_food_body_def analyzedData_arg_def json_of_AnalyzedData_fields
      truthy_json_of_Nutrients and_then_def try_catch_def)
     (simp add: json_of_AnalyzedData_def)

text \<open>
  Claim C5.  For every request whose \<open>analyzedData\<close> supplies the totals object and a
  non-empty meal list, the handler answers with the Passthrough result: its
  \<open>structuredContent\<close> equals the supplied \<open>analyzedData\<close>, field for field and unchanged, and
  its text says the description was analyzed.
\<close>

theorem complete_payload_passes_through:
  "logged a \<noteq> [] \<Longrightarrow>
     analyze_food widget foodDescription (analyzedData_arg (Some a)) =
       \<lparr>content_text = ''Food analyzed: '' @ foodDescription,
        structuredContent = json_of_AnalyzedData a,
        meta = widgetMeta widget\<rparr>"
  by (rule analyze_food_supplied)

text \<open>
  A burger with its totals comes back as it was sent.
\<close>

theorem complete_payload_passes_through_witness:
  "structuredContent (analyze_food (macrosWidget [] []) ''a burger''
     (JObj [(''dailyTotals'', JObj [(''calories'', JNum 540), (''protein'', JNum 25), (''carbs'', JNum 40), (''fat'', JNum 25)]),
            (''loggedMeals'', JArr [json_of_Meal burger])]))
   = JObj [(''dailyTotals'', JObj [(''calories'', JNum 540), (''protein'', JNum 25), (''carbs'', JNum 40), (''fat'', JNum 25)]),
            (''loggedMeals'', JArr [json_of_Meal burger])]"
proof -
  let ?a = "\<lparr>totals = \<lparr>calories = 540, protein = 25, carbs = 40, fat = 25\<rparr>,
             logged = [json_of_Meal burger]\<rparr>"
  have h: "logged ?a \<noteq> []" by simp
  show ?thesis
    using complete_payload_passes_through [OF h, of "macrosWidget [] []" "''a burger''"]
    by (simp add: analyzedData_arg_def json_of_AnalyzedData_def json_of_Nutrients_def)
qed

lemma analyze_food_omitted:
  "analyze_food widget foodDescription (analyzedData_arg None) =
         \<lparr>content_text =
            ''Please analyze '' @ [CHR 0x22] @ foodDescription @ [CHR 0x22] @
            '' using your nutrition knowledge and call this tool with the analyzedData parameter populated with the complete meal data.'',
          structuredContent =
            JObj [(''foodDescription'', JStr foodDescription), (''error'', JStr resubmit_instruction)],
          meta = widgetMeta widget\<rparr>"
  by (simp add: analyze_food_def analyze_food_body_def analyzedData_arg_def opt_member_def nullish_def try_catch_def)

lemma analyze_food_omitted_payload:
  "structuredContent (analyze_food widget foodDescription (analyzedData_arg None)) =
     JObj [(''foodDescription'', JStr foodDescription), (''error'', JStr resubmit_instruction)]"
  by (simp add: analyze_food_omitted)

lemma analyze_food_supplied_payload:
  "structuredContent (analyze_food widget foodDescription (analyzedData_arg (Some a))) = json_of_AnalyzedData a"
  by (simp add: analyze_food_supplied)

lemma analyze_food_route_payload:
  "structuredContent (analyze_food_route widget foodDescription) = JObj [(''foodDescription'', JStr foodDescription)]"
  by (simp add: analyze_food_route_def try_catch_def)

text \<open>
  Claim C6, as stated, fails on the handler of app/mcp/route.ts (lines 150-171): for the
  request \<open>{ foodDescription: "100g blueberries" }\<close> its \<open>structuredContent\<close> holds the
  description and nothing else; there is no \<open>error\<close> string.
\<close>

theorem route_handler_sets_no_error:
  "structuredContent (analyze_food_route (macrosWidget [] []) ''100g blueberries'')
     = JObj [(''foodDescription'', JStr ''100g blueberries'')] \<and>
   get_prop (structuredContent (analyze_food_route (macrosWidget [] []) ''100g blueberries'')) ''error'' = JUndefined \<and>
   \<not> has_field (structuredContent (analyze_food_route (macrosWidget [] []) ''100g blueberries'')) ''error''"
  by (simp add: analyze_food_route_payload)

text \<open>
  Claim C6, amended.  For every request without \<open>analyzedData\<close>, the handler that accepts
  \<open>analyzedData\<close> returns a \<open>structuredContent\<close> made of the original description, verbatim,
  and the fixed non-empty \<open>error\<close> string asking for a call with \<open>analyzedData\<close>; the handler
  of app/mcp/route.ts returns a \<open>structuredContent\<close> made of the original description
  only.  Neither carries a \<open>dailyTotals\<close> or \<open>loggedMeals\<close> field, and neither reads a
  credential.
\<close>

theorem deferred_without_numbers:
  "structuredContent (analyze_food widget foodDescription (analyzedData_arg None))
     = JObj [(''foodDescription'', JStr foodDescription), (''error'', JStr resubmit_instruction)] \<and>
   resubmit_instruction \<noteq> [] \<and>
   \<not> carries_nutrition (structuredContent (analyze_food widget foodDescription (analyzedData_arg None))) \<and>
   structuredContent (analyze_food_route widget foodDescription) = JObj [(''foodDescription'', JStr foodDescription)] \<and>
   \<not> carries_nutrition (structuredContent (analyze_food_route widget foodDescription))"
  by (simp add: analyze_food_omitted_payload analyze_food_route_payload carries_nutrition_def
      resubmit_instruction_def)

text \<open>
  The request \<open>{ foodDescription: "100g blueberries" }\<close> of the specification.
\<close>

theorem deferred_without_numbers_witness:
  "structuredContent (analyze_food (macrosWidget [] []) ''100g blueberries'' JUndefined)
     = JObj [(''foodDescription'', JStr ''100g blueberries''),
             (''error'', JStr ''Please call this tool with the analyzedData parameter containing the analyzed meal data.'')]"
  using deferred_without_numbers [of "macrosWidget [] []" "''100g blueberries''"]
  by (simp add: analyzedData_arg_def resubmit_instruction_def)

lemma settled_state_empty_payload:
  "settled_state (JObj [(''dailyTotals'', t), (''loggedMeals'', JArr [])]) = Inr Empty"
  "truthy t \<Longrightarrow> settled_state (JObj [(''structuredContent'', JObj [(''dailyTotals'', t), (''loggedMeals'', JArr [])])]) = Inr Empty"
  "settled_state (JObj [(''result'', JObj [(''structuredContent'', JObj [(''dailyTotals'', t), (''loggedMeals'', JArr [])])])]) = Inr Empty"
  by (simp_all add: settled_state_def settled_view_def Macros_effect_def
      Macros_def extract_mealData_first_match and_then_def meals_of_def js_or_def extracted_error_def
      loading_effect_def member_def js_gt_def hasMeals_def resolution_rules_def path_rule_def self_rule_def
      opt_member_def nullish_def)

text \<open>
  Claim C10.  When \<open>analyzedData\<close> has its totals and an empty \<open>loggedMeals\<close> array, the
  handler still takes the passthrough branch (an empty array is truthy): the
  \<open>structuredContent\<close> holds the totals and the empty list and has no \<open>error\<close> field, and the
  widget settles in the Empty state on it, whether it receives the payload itself, or
  wrapped under \<open>structuredContent\<close>, or under \<open>result.structuredContent\<close>.
\<close>

theorem empty_meal_list_passes_through:
  "logged a = [] \<Longrightarrow>
     structuredContent (analyze_food widget foodDescription (analyzedData_arg (Some a)))
       = JObj [(''dailyTotals'', json_of_Nutrients (totals a)), (''loggedMeals'', JArr [])] \<and>
     \<not> has_field (structuredContent (analyze_food widget foodDescription (analyzedData_arg (Some a)))) ''error'' \<and>
     settled_state (structuredContent (analyze_food widget foodDescription (analyzedData_arg (Some a)))) = Inr Empty \<and>
     settled_state (JObj [(''structuredContent'',
        structuredContent (analyze_food widget foodDescription (analyzedData_arg (Some a))))]) = Inr Empty \<and>
     settled_state (JObj [(''result'', JObj [(''structuredContent'',
        structuredContent (analyze_food widget foodDescription (analyzedData_arg (Some a))))])]) = Inr Empty"
  by (simp add: analyze_food_supplied_payload json_of_AnalyzedData_def settled_state_empty_payload
      truthy_json_of_Nutrients)

text \<open>
  Totals of zero and no meals.
\<close>

theorem empty_meal_list_passes_through_witness:
  "structuredContent (analyze_food (macrosWidget [] []) ''nothing''
     (JObj [(''dailyTotals'', JObj [(''calories'', JNum 0), (''protein'', JNum 0), (''carbs'', JNum 0), (''fat'', JNum 0)]),
            (''loggedMeals'', JArr [])]))
   = JObj [(''dailyTotals'', JObj [(''calories'', JNum 0), (''protein'', JNum 0), (''carbs'', JNum 0), (''fat'', JNum 0)]),
           (''loggedMeals'', JArr [])] \<and>
   settled_state (JObj [(''dailyTotals'', JObj [(''calories'', JNum 0), (''protein'', JNum 0), (''carbs'', JNum 0), (''fat'', JNum 0)]),
           (''loggedMeals'', JArr [])]) = Inr Empty"
proof -
  let ?a = "\<lparr>totals = \<lparr>calories = 0, protein = 0, carbs = 0, fat = 0\<rparr>, logged = []\<rparr>"
  have h: "logged ?a = []" by simp
  show ?thesis
    using empty_meal_list_passes_through [OF h, of "macrosWidget [] []" "''nothing''"]
    by (clarsimp simp add: analyzedData_arg_def json_of_AnalyzedData_def json_of_Nutrients_def)
qed

section \<open>The handler that calls the service\<close>


lemma message_simps:
  "message (TypeError m) = m" "message (SyntaxError m) = m" "message (Error m) = m" "message Unmodelled = []"
  by (simp_all add: message_def)

lemma and_then_simps:
  "and_then (Inr x) f = f x" "and_then (Inl e) f = Inl e"
  by (simp_all add: and_then_def)

lemma member_not_nullish: "\<not> nullish v \<Longrightarrow> member v k = Inr (get_prop v k)"
  by (simp add: member_def)

lemma member_nullish: "nullish v \<Longrightarrow> \<exists>e. member v k = Inl e"
  by (simp add: member_def)

lemma member_not_wordless: "message e = [] \<Longrightarrow> member v k \<noteq> Inl e"
  by (auto simp: member_def message_def split: if_splits)

lemma caught_payload:
  "error_payload (structuredContent (caught widget fd e)) = Some (message e)"
  "meta (caught widget fd e) = widgetMeta widget"
  "\<not> success_payload (structuredContent (caught widget fd e))"
  by (simp_all add: caught_def)

lemma try_catch_simps:
  "try_catch (Inr r) h = r"
  "try_catch (Inl e) h = h e"
  by (simp_all add: try_catch_def)

lemma live_body_returned:
  assumes "analyze_food_live_body T P widget k u fd = Inr r"
  shows "meta r = widgetMeta widget \<and>
         (error_payload (structuredContent r) = Some missing_key_message \<or> success_payload (structuredContent r))"
  using assms
  by (auto simp: analyze_food_live_body_def and_then_def
      split: if_splits fetch_outcome.splits sum.splits)

text \<open>Every run ends in a result of the usual shape: a success, or one error string.\<close>

lemma live_shape:
  "meta (analyze_food_live T P widget k u fd) = widgetMeta widget \<and>
   (success_payload (structuredContent (analyze_food_live T P widget k u fd)) \<or>
    (\<exists>msg. error_payload (structuredContent (analyze_food_live T P widget k u fd)) = Some msg))"
proof (cases "analyze_food_live_body T P widget k u fd")
  case (Inl e)
  then show ?thesis by (simp add: analyze_food_live_def try_catch_simps caught_payload)
next
  case (Inr r)
  from live_body_returned [OF Inr] show ?thesis
    using Inr by (auto simp: analyze_food_live_def try_catch_simps)
qed

lemma upstream_message_worded:
  assumes "\<forall>s. T (JStr s) = Inr s" "string_or_falsy m"
    "T (js_or m (JStr ''Failed to process food data'')) = Inr s"
  shows "s \<noteq> []"
proof (cases "truthy m")
  case True
  with assms(2) obtain t where "m = JStr t" "t \<noteq> []" by (cases m) auto
  with assms(1,3) show ?thesis by (simp add: js_or_def)
next
  case False
  with assms(1,3) show ?thesis by (auto simp add: js_or_def)
qed

lemma live_body_thrown:
  assumes w: "platform_worded T P u"
    and b: "analyze_food_live_body T P widget k u fd = Inl e"
  shows "message e \<noteq> []"
proof (cases "not_configured k")
  case True
  with b show ?thesis by (simp add: analyze_food_live_body_def)
next
  case key: False
  have P: "\<And>s x. P s = Inl x \<Longrightarrow> message x \<noteq> []"
    using w by (auto simp: platform_worded_def)
  have T: "\<And>v x. T v = Inl x \<Longrightarrow> message x \<noteq> []"
    using w by (auto simp: platform_worded_def)
  have S: "\<forall>s. T (JStr s) = Inr s"
    using w by (auto simp: platform_worded_def)
  show ?thesis
  proof (cases u)
    case (Rejected msg)
    with w key b show ?thesis
      by (auto simp: analyze_food_live_body_def platform_worded_def message_simps)
  next
    case (Responded ok body)
    show ?thesis
    proof (cases body)
      case (Inl x)
      with w key b Responded show ?thesis
        by (auto simp: analyze_food_live_body_def platform_worded_def and_then_def split: if_splits)
    next
      case (Inr v)
      show ?thesis
      proof (cases ok)
        case False
        with w Responded Inr have sf: "string_or_falsy (opt_member (get_prop v ''error'') ''message'')"
          by (simp add: platform_worded_def)
        show ?thesis
        proof (cases "nullish v")
          case True
          with key b Responded Inr False show ?thesis
            by (auto simp: analyze_food_live_body_def and_then_simps member_def message_simps)
        next
          case nn: False
          let ?m = "js_or (opt_member (get_prop v ''error'') ''message'') (JStr ''Failed to process food data'')"
          have body: "analyze_food_live_body T P widget k u fd = and_then (T ?m) (\<lambda>m. Inl (Error m))"
            using key Responded Inr False nn
            by (simp add: analyze_food_live_body_def and_then_simps member_not_nullish)
          show ?thesis
          proof (cases "T ?m")
            case (Inl x)
            with b body have "e = x" by (simp add: and_then_simps)
            with Inl T [of ?m x] show ?thesis by simp
          next
            case (Inr s)
            with b body have "e = Error s" by (simp add: and_then_simps)
            with upstream_message_worded [OF S sf Inr] show ?thesis by (simp add: message_simps)
          qed
        qed
      next
        case True
        with key b Responded Inr show ?thesis
          by (auto simp: analyze_food_live_body_def and_then_def message_simps invalid_format_message_def
              member_not_wordless
              split: sum.splits if_splits dest: P T)
      qed
    qed
  qed
qed


lemma live_missing_key:
  "not_configured k \<Longrightarrow>
     analyze_food_live T P widget k u fd =
       \<lparr>content_text = ''Error: '' @ missing_key_message,
        structuredContent = JObj [(''error'', JStr missing_key_message)],
        meta = widgetMeta widget\<rparr>"
  by (simp add: analyze_food_live_def analyze_food_live_body_def try_catch_simps)

lemma live_rejected:
  "\<not> not_configured k \<Longrightarrow>
     analyze_food_live T P widget k (Rejected msg) fd = caught widget fd (TypeError msg)"
  by (simp add: analyze_food_live_def analyze_food_live_body_def try_catch_simps)

lemma live_unreadable_body:
  "\<not> not_configured k \<Longrightarrow>
     analyze_food_live T P widget k (Responded ok (Inl e)) fd = caught widget fd e"
  by (simp add: analyze_food_live_def analyze_food_live_body_def try_catch_simps and_then_simps)

lemma live_bad_status:
  assumes "\<not> not_configured k"
  shows "\<exists>e. analyze_food_live T P widget k (Responded False b) fd = caught widget fd e"
proof -
  have "\<exists>e. analyze_food_live_body T P widget k (Responded False b) fd = Inl e"
    using assms by (auto simp: analyze_food_live_body_def and_then_def split: sum.splits)
  then show ?thesis by (auto simp: analyze_food_live_def try_catch_simps)
qed

lemma chat_completion_content:
  "T (JStr reply) = Inr reply \<Longrightarrow>
   and_then (member (chat_completion reply) ''choices'') (\<lambda>choices.
   and_then (member choices ''0'') (\<lambda>choice.
   and_then (member choice ''message'') (\<lambda>msg.
   and_then (member msg ''content'') (\<lambda>content.
   and_then (T content) f)))) = f reply"
  by (simp add: chat_completion_def member_def nullish_def and_then_simps)

lemma live_body_on_reply:
  assumes "\<not> not_configured k" "T (JStr reply) = Inr reply"
  shows "analyze_food_live_body T P widget k (Responded True (Inr (chat_completion reply))) fd =
     and_then (P reply) (\<lambda>data.
       and_then (member data ''dailyTotals'') (\<lambda>dt.
         if \<not> truthy dt then Inl (Error invalid_format_message)
         else and_then (member data ''loggedMeals'') (\<lambda>lm.
           if \<not> truthy lm then Inl (Error invalid_format_message)
           else Inr \<lparr>content_text = ''Food analyzed: '' @ fd,
                     structuredContent = JObj [(''dailyTotals'', dt), (''loggedMeals'', lm)],
                     meta = widgetMeta widget\<rparr>)))"
  using assms(1)
  by (simp add: analyze_food_live_body_def and_then_simps chat_completion_content [where T = T and reply = reply, OF assms(2)])

lemma live_unparseable_content:
  "\<not> not_configured k \<Longrightarrow> T (JStr reply) = Inr reply \<Longrightarrow> P reply = Inl e \<Longrightarrow>
     analyze_food_live T P widget k (Responded True (Inr (chat_completion reply))) fd = caught widget fd e"
  by (simp add: analyze_food_live_def live_body_on_reply try_catch_simps and_then_simps)

lemma live_validation:
  assumes "\<not> not_configured k" "T (JStr reply) = Inr reply" "P reply = Inr data" "\<not> nullish data"
    "\<not> (truthy (opt_member data ''dailyTotals'') \<and> truthy (opt_member data ''loggedMeals''))"
  shows "analyze_food_live T P widget k (Responded True (Inr (chat_completion reply))) fd =
           caught widget fd (Error invalid_format_message)"
  using assms
  by (auto simp add: analyze_food_live_def live_body_on_reply try_catch_simps and_then_simps
      member_not_nullish opt_member_def)

lemma live_null_data:
  assumes "\<not> not_configured k" "T (JStr reply) = Inr reply" "P reply = Inr data" "nullish data"
  shows "\<exists>e. analyze_food_live T P widget k (Responded True (Inr (chat_completion reply))) fd =
           caught widget fd e"
  using assms member_nullish [OF assms(4), of "''dailyTotals''"]
  by (auto simp add: analyze_food_live_def live_body_on_reply try_catch_simps and_then_simps)

lemma live_success:
  assumes "\<not> not_configured k" "T (JStr reply) = Inr reply" "P reply = Inr data"
    "truthy (opt_member data ''dailyTotals'')" "truthy (opt_member data ''loggedMeals'')"
  shows "analyze_food_live T P widget k (Responded True (Inr (chat_completion reply))) fd =
           \<lparr>content_text = ''Food analyzed: '' @ fd,
            structuredContent = JObj [(''dailyTotals'', opt_member data ''dailyTotals''),
                                      (''loggedMeals'', opt_member data ''loggedMeals'')],
            meta = widgetMeta widget\<rparr>"
proof -
  have "\<not> nullish data" using assms(4) by (auto simp: opt_member_def)
  with assms show ?thesis
    by (simp add: analyze_food_live_def live_body_on_reply try_catch_simps and_then_simps
        member_not_nullish opt_member_def)
qed

lemma live_worded:
  assumes "platform_worded T P u"
  shows "success_payload (structuredContent (analyze_food_live T P widget k u fd)) \<or>
         (\<exists>msg. error_payload (structuredContent (analyze_food_live T P widget k u fd)) = Some msg \<and> msg \<noteq> [])"
proof (cases "analyze_food_live_body T P widget k u fd")
  case (Inl e)
  from live_body_thrown [OF assms Inl] Inl show ?thesis
    by (simp add: analyze_food_live_def try_catch_simps caught_payload)
next
  case (Inr r)
  from live_body_returned [OF Inr] show ?thesis
    using Inr by (auto simp: analyze_food_live_def try_catch_simps missing_key_message_def)
qed

text \<open>
  Claim C7.  The handler that calls the service returns a result of the usual shape on
  every run: the fixed metadata, and a payload that is either the analysed data or a
  single \<open>error\<close> string; nothing is thrown past the handler.  Each failure is answered
  that way: a missing credential (with the fixed message), a rejected request, a reply
  with a non-success status, a body that cannot be read, a content that cannot be parsed,
  and a parsed content that lacks \<open>dailyTotals\<close> or \<open>loggedMeals\<close> (with the fixed "invalid
  response" message, the validation failure being thrown and caught).  The message is not
  empty whenever the platform words its own errors and the service words its error reply
  with a string.
\<close>

theorem live_failures_are_answered:
  "meta (analyze_food_live T P widget k u fd) = widgetMeta widget \<and>
   (success_payload (structuredContent (analyze_food_live T P widget k u fd)) \<or>
    (\<exists>msg. error_payload (structuredContent (analyze_food_live T P widget k u fd)) = Some msg)) \<and>
   (not_configured k \<longrightarrow>
      error_payload (structuredContent (analyze_food_live T P widget k u fd)) = Some missing_key_message) \<and>
   (\<not> not_configured k \<longrightarrow>
      (\<forall>msg. u = Rejected msg \<longrightarrow>
         error_payload (structuredContent (analyze_food_live T P widget k u fd)) = Some msg) \<and>
      (\<forall>b. u = Responded False b \<longrightarrow>
         \<not> success_payload (structuredContent (analyze_food_live T P widget k u fd))) \<and>
      (\<forall>ok e. u = Responded ok (Inl e) \<longrightarrow>
         error_payload (structuredContent (analyze_food_live T P widget k u fd)) = Some (message e)) \<and>
      (\<forall>reply e. u = Responded True (Inr (chat_completion reply)) \<and> T (JStr reply) = Inr reply \<and>
           P reply = Inl e \<longrightarrow>
         error_payload (structuredContent (analyze_food_live T P widget k u fd)) = Some (message e)) \<and>
      (\<forall>reply data. u = Responded True (Inr (chat_completion reply)) \<and> T (JStr reply) = Inr reply \<and>
           P reply = Inr data \<and>
           \<not> (truthy (opt_member data ''dailyTotals'') \<and> truthy (opt_member data ''loggedMeals'')) \<longrightarrow>
         \<not> success_payload (structuredContent (analyze_food_live T P widget k u fd)) \<and>
         (\<not> nullish data \<longrightarrow>
            error_payload (structuredContent (analyze_food_live T P widget k u fd)) =
              Some invalid_format_message))) \<and>
   (platform_worded T P u \<longrightarrow>
      success_payload (structuredContent (analyze_food_live T P widget k u fd)) \<or>
      (\<exists>msg. error_payload (structuredContent (analyze_food_live T P widget k u fd)) = Some msg \<and>
             msg \<noteq> []))"
proof -
  let ?r = "analyze_food_live T P widget k u fd"
  have shape: "meta ?r = widgetMeta widget \<and>
     (success_payload (structuredContent ?r) \<or> (\<exists>msg. error_payload (structuredContent ?r) = Some msg))"
    by (rule live_shape)
  have key: "not_configured k \<longrightarrow> error_payload (structuredContent ?r) = Some missing_key_message"
    by (simp add: live_missing_key)
  have rej: "u = Rejected msg \<longrightarrow> error_payload (structuredContent ?r) = Some msg"
    if "\<not> not_configured k" for msg
    using that by (auto simp: live_rejected caught_payload message_simps)
  have bad: "u = Responded False b \<longrightarrow> \<not> success_payload (structuredContent ?r)"
    if "\<not> not_configured k" for b
    using live_bad_status [OF that, of T P widget b fd] by (auto simp: caught_payload)
  have unread: "u = Responded ok (Inl e) \<longrightarrow> error_payload (structuredContent ?r) = Some (message e)"
    if "\<not> not_configured k" for ok e
    using that by (auto simp: live_unreadable_body caught_payload)
  have unparse: "u = Responded True (Inr (chat_completion reply)) \<and> T (JStr reply) = Inr reply \<and>
           P reply = Inl e \<longrightarrow> error_payload (structuredContent ?r) = Some (message e)"
    if "\<not> not_configured k" for reply e
    using that by (auto simp: live_unparseable_content caught_payload)
  have lacking: "u = Responded True (Inr (chat_completion reply)) \<and> T (JStr reply) = Inr reply \<and>
           P reply = Inr data \<and>
           \<not> (truthy (opt_member data ''dailyTotals'') \<and> truthy (opt_member data ''loggedMeals'')) \<longrightarrow>
         \<not> success_payload (structuredContent ?r) \<and>
         (\<not> nullish data \<longrightarrow> error_payload (structuredContent ?r) = Some invalid_format_message)"
    if nk: "\<not> not_configured k" for reply data
  proof (intro impI, elim conjE)
    assume a: "u = Responded True (Inr (chat_completion reply))" "T (JStr reply) = Inr reply"
      "P reply = Inr data"
      "\<not> (truthy (opt_member data ''dailyTotals'') \<and> truthy (opt_member data ''loggedMeals''))"
    show "\<not> success_payload (structuredContent ?r) \<and>
         (\<not> nullish data \<longrightarrow> error_payload (structuredContent ?r) = Some invalid_format_message)"
    proof (cases "nullish data")
      case True
      from live_null_data [where T = T and P = P and reply = reply and data = data and k = k
            and widget = widget and fd = fd, OF nk a(2) a(3) True] a(1) True show ?thesis
        by (auto simp: caught_payload)
    next
      case False
      from live_validation [where T = T and P = P and reply = reply and data = data and k = k
            and widget = widget and fd = fd, OF nk a(2) a(3) False a(4)] a(1) False show ?thesis
        by (simp add: caught_payload message_simps)
    qed
  qed
  have worded: "platform_worded T P u \<longrightarrow>
      success_payload (structuredContent ?r) \<or>
      (\<exists>msg. error_payload (structuredContent ?r) = Some msg \<and> msg \<noteq> [])"
    using live_worded by blast
  show ?thesis
    using shape key rej bad unread unparse lacking worded by (intro conjI impI allI) blast+
qed


text \<open>
  Four failing runs against a stand-in parser that reads \<open>{}\<close> and nothing else: no
  credential; a reply \<open>{}\<close> without the two fields; a reply that is not JSON; a request that
  the network rejects.
\<close>

theorem live_failures_are_answered_witness:
  "error_payload (structuredContent (analyze_food_live
      (\<lambda>v. case v of JStr s \<Rightarrow> Inr s | _ \<Rightarrow> Inr ''[object Object]'')
      (\<lambda>s. if s = ''{}'' then Inr (JObj []) else Inl (SyntaxError ''Unexpected token''))
      (macrosWidget [] []) None (Rejected ''fetch failed'') ''pizza'')) = Some missing_key_message \<and>
   error_payload (structuredContent (analyze_food_live
      (\<lambda>v. case v of JStr s \<Rightarrow> Inr s | _ \<Rightarrow> Inr ''[object Object]'')
      (\<lambda>s. if s = ''{}'' then Inr (JObj []) else Inl (SyntaxError ''Unexpected token''))
      (macrosWidget [] []) (Some ''sk-test'') (Responded True (Inr (chat_completion ''{}''))) ''pizza''))
     = Some invalid_format_message \<and>
   error_payload (structuredContent (analyze_food_live
      (\<lambda>v. case v of JStr s \<Rightarrow> Inr s | _ \<Rightarrow> Inr ''[object Object]'')
      (\<lambda>s. if s = ''{}'' then Inr (JObj []) else Inl (SyntaxError ''Unexpected token''))
      (macrosWidget [] []) (Some ''sk-test'') (Responded True (Inr (chat_completion ''oops''))) ''pizza''))
     = Some ''Unexpected token'' \<and>
   error_payload (structuredContent (analyze_food_live
      (\<lambda>v. case v of JStr s \<Rightarrow> Inr s | _ \<Rightarrow> Inr ''[object Object]'')
      (\<lambda>s. if s = ''{}'' then Inr (JObj []) else Inl (SyntaxError ''Unexpected token''))
      (macrosWidget [] []) (Some ''sk-test'') (Rejected ''fetch failed'') ''pizza''))
     = Some ''fetch failed''"
proof -
  let ?T = "\<lambda>v. case v of JStr s \<Rightarrow> Inr s | _ \<Rightarrow> (Inr ''[object Object]'' :: thrown + string)"
  let ?P = "\<lambda>s. if s = ''{}'' then Inr (JObj []) else (Inl (SyntaxError ''Unexpected token'') :: thrown + jsval)"
  let ?W = "macrosWidget [] []"
  let ?k = "Some ''sk-test''"
  let ?run = "\<lambda>k u. structuredContent (analyze_food_live ?T ?P ?W k u ''pizza'')"
  have n: "not_configured None" "\<not> not_configured ?k"
    by (simp_all add: not_configured_def)
  have c1: "error_payload (?run None (Rejected ''fetch failed'')) = Some missing_key_message"
    using live_failures_are_answered [where T = ?T and P = ?P and widget = ?W and k = None
        and u = "Rejected ''fetch failed''" and fd = "''pizza''"] n(1)
    by blast
  have "\<forall>reply data. Responded True (Inr (chat_completion ''{}'')) = Responded True (Inr (chat_completion reply)) \<and>
           ?T (JStr reply) = Inr reply \<and> ?P reply = Inr data \<and>
           \<not> (truthy (opt_member data ''dailyTotals'') \<and> truthy (opt_member data ''loggedMeals'')) \<longrightarrow>
         \<not> success_payload (?run ?k (Responded True (Inr (chat_completion ''{}'')))) \<and>
         (\<not> nullish data \<longrightarrow>
            error_payload (?run ?k (Responded True (Inr (chat_completion ''{}'')))) = Some invalid_format_message)"
    using live_failures_are_answered [where T = ?T and P = ?P and widget = ?W and k = ?k
        and u = "Responded True (Inr (chat_completion ''{}''))" and fd = "''pizza''"] n(2)
    by blast
  from this [rule_format, of "''{}''" "JObj []"]
  have c2: "error_payload (?run ?k (Responded True (Inr (chat_completion ''{}'')))) = Some invalid_format_message"
    by (simp add: nullish_def opt_member_def)
  have "\<forall>reply e. Responded True (Inr (chat_completion ''oops'')) = Responded True (Inr (chat_completion reply)) \<and>
           ?T (JStr reply) = Inr reply \<and> ?P reply = Inl e \<longrightarrow>
         error_payload (?run ?k (Responded True (Inr (chat_completion ''oops'')))) = Some (message e)"
    using live_failures_are_answered [where T = ?T and P = ?P and widget = ?W and k = ?k
        and u = "Responded True (Inr (chat_completion ''oops''))" and fd = "''pizza''"] n(2)
    by blast
  from this [rule_format, of "''oops''" "SyntaxError ''Unexpected token''"]
  have c3: "error_payload (?run ?k (Responded True (Inr (chat_completion ''oops'')))) = Some ''Unexpected token''"
    by (simp add: message_simps)
  have c4: "error_payload (?run ?k (Rejected ''fetch failed'')) = Some ''fetch failed''"
    using live_failures_are_answered [where T = ?T and P = ?P and widget = ?W and k = ?k
        and u = "Rejected ''fetch failed''" and fd = "''pizza''"] n(2)
    by blast
  from c1 c2 c3 c4 show ?thesis by simp
qed

section \<open>What the presenter shows\<close>


lemma Math_round_nonneg: "0 \<le> x \<Longrightarrow> Math_round x = round_half_away x"
  by (simp add: Math_round_def round_half_away_def)

lemma nutrition_grid_rounded:
  "non_negative n \<Longrightarrow>
     nutrition_grid n = map (\<lambda>x. Number_child (round_half_away x)) (nutrient_values n)"
  by (simp add: nutrition_grid_def nutrient_values_def non_negative_def Math_round_nonneg)

lemma daily_totals_block_rounded:
  "non_negative n \<Longrightarrow>
     map shown_numbers (daily_totals_block n) = map (\<lambda>x. [round_half_away x]) (nutrient_values n)"
  by (simp add: daily_totals_block_def nutrient_values_def non_negative_def Math_round_nonneg shown_numbers_def)

lemma nutrition_grid_not_blank: "c \<in> set (nutrition_grid n) \<Longrightarrow> \<not> blank c"
  by (auto simp: nutrition_grid_def)

text \<open>
  Claim C8.  Every nutrient value the presenter shows goes through \<open>Math.round\<close>: the four
  totals of a meal card, the four values of each ingredient line of its breakdown, and
  the four daily totals.  For a non-negative value the number shown is the value rounded
  to the nearest integer, halves away from zero.  In particular 56.5 shows as 57, and 0
  shows as the number 0, which React prints; no cell is blank.
\<close>

theorem shown_values_are_rounded:
  "(non_negative (total_nutrients meal) \<longrightarrow>
      card_totals (MealCard meal showBreakdown) =
        map (\<lambda>x. Number_child (round_half_away x)) (nutrient_values (total_nutrients meal))) \<and>
   (\<forall>rows. card_breakdown (MealCard meal showBreakdown) = Some rows \<longrightarrow>
      map row_values rows = map (\<lambda>i. nutrition_grid (nutrients i)) (ingredients meal) \<and>
      (\<forall>i \<in> set (ingredients meal). non_negative (nutrients i) \<longrightarrow>
         nutrition_grid (nutrients i) =
           map (\<lambda>x. Number_child (round_half_away x)) (nutrient_values (nutrients i)))) \<and>
   (non_negative daily \<longrightarrow>
      map shown_numbers (daily_totals_block daily) =
        map (\<lambda>x. [round_half_away x]) (nutrient_values daily)) \<and>
   (\<forall>c \<in> set (card_totals (MealCard meal showBreakdown)). \<not> blank c) \<and>
   (\<forall>cell \<in> set (daily_totals_block daily). \<exists>c \<in> set cell. \<not> blank c) \<and>
   Math_round (113 / 2) = 57 \<and> round_half_away (113 / 2) = 57 \<and>
   Math_round 0 = 0 \<and> \<not> blank (Number_child (Math_round 0))"
proof -
  have rows: "card_breakdown (MealCard meal showBreakdown) = Some rows \<Longrightarrow>
      map row_values rows = map (\<lambda>i. nutrition_grid (nutrients i)) (ingredients meal)" for rows
    by (auto simp: MealCard_def Let_def ingredient_line_def split: if_splits)
  have nb: "\<forall>cell \<in> set (daily_totals_block daily). \<exists>c \<in> set cell. \<not> blank c"
    by (simp add: daily_totals_block_def)
  have r: "Math_round (113 / 2) = 57" "round_half_away (113 / 2) = 57" "Math_round 0 = 0"
    by (simp_all add: Math_round_def round_half_away_def floor_eq_iff)
  have ct: "card_totals (MealCard meal showBreakdown) = nutrition_grid (total_nutrients meal)"
    by (simp add: MealCard_def Let_def)
  show ?thesis
    using rows nb r ct nutrition_grid_rounded daily_totals_block_rounded nutrition_grid_not_blank
    by (auto simp del: One_nat_def)
qed

text \<open>
  A hundred grams of blueberries: 56.5, 0, 14.5 and 0.3 show as 57, 0, 15 and 0.
\<close>

theorem shown_values_are_rounded_witness:
  "card_totals (MealCard
      \<lparr>meal_name = ''Blueberries'', meal_size = Some ''100g'', ingredients = [],
       total_nutrients = \<lparr>calories = 113 / 2, protein = 0, carbs = 29 / 2, fat = 3 / 10\<rparr>\<rparr> False)
     = [Number_child 57, Number_child 0, Number_child 15, Number_child 0] \<and>
   map shown_numbers (daily_totals_block \<lparr>calories = 113 / 2, protein = 0, carbs = 29 / 2, fat = 3 / 10\<rparr>)
     = [[57], [0], [15], [0]]"
proof -
  let ?n = "\<lparr>calories = 113 / 2, protein = 0, carbs = 29 / 2, fat = 3 / 10\<rparr> :: Nutrients"
  let ?m = "\<lparr>meal_name = ''Blueberries'', meal_size = Some ''100g'', ingredients = [],
       total_nutrients = ?n\<rparr>"
  have nn: "non_negative ?n" "non_negative (total_nutrients ?m)" by (simp_all add: non_negative_def)
  have v: "map round_half_away (nutrient_values ?n) = [57, 0, 15, 0]"
    by (simp add: nutrient_values_def round_half_away_def floor_eq_iff)
  from shown_values_are_rounded [of ?m False ?n] nn
  have "card_totals (MealCard ?m False) =
          map (\<lambda>x. Number_child (round_half_away x)) (nutrient_values (total_nutrients ?m))"
    and "map shown_numbers (daily_totals_block ?n) = map (\<lambda>x. [round_half_away x]) (nutrient_values ?n)"
    by blast+
  then show ?thesis
    by (simp add: nutrient_values_def round_half_away_def floor_eq_iff)
qed

section \<open>The daily-totals block\<close>


lemma json_of_MealData_fields:
  "opt_member (json_of_MealData d) ''dailyTotals'' =
     (case dailyTotals d of None \<Rightarrow> JUndefined | Some n \<Rightarrow> json_of_Nutrients n)"
  "opt_member (json_of_MealData d) ''loggedMeals'' =
     (case loggedMeals d of None \<Rightarrow> JUndefined | Some ms \<Rightarrow> JArr (map json_of_Meal ms))"
  "opt_member (json_of_MealData d) ''error'' =
     (case error d of None \<Rightarrow> JUndefined | Some e \<Rightarrow> JStr e)"
  by (simp_all add: json_of_MealData_def optional_field_def opt_member_def nullish_def
      split: option.splits)

lemma truthy_json_of_MealData: "truthy (json_of_MealData d)"
  by (simp add: json_of_MealData_def)

lemma Macros_with_totals_typed:
  assumes "error d = None" "loggedMeals d = Some ms" "ms \<noteq> []"
  shows "Macros_with_totals (JObj [(''structuredContent'', json_of_MealData d)]) =
           Inr (ReadyView (map_option json_of_Nutrients (dailyTotals d)) (map json_of_Meal ms))"
    and "Macros_with_totals (JObj [(''result'', JObj [(''structuredContent'', json_of_MealData d)])]) =
           Inr (ReadyView (map_option json_of_Nutrients (dailyTotals d)) (map json_of_Meal ms))"
proof -
  have md: "js_or (opt_member (opt_member (JObj [(''structuredContent'', json_of_MealData d)]) ''result'') ''structuredContent'')
              (js_or (opt_member (JObj [(''structuredContent'', json_of_MealData d)]) ''structuredContent'') JNull)
            = json_of_MealData d"
    by (simp add: js_or_def opt_member_def nullish_def truthy_json_of_MealData)
  have md2: "js_or (opt_member (opt_member (JObj [(''result'', JObj [(''structuredContent'', json_of_MealData d)])]) ''result'') ''structuredContent'')
              (js_or (opt_member (JObj [(''result'', JObj [(''structuredContent'', json_of_MealData d)])]) ''structuredContent'') JNull)
            = json_of_MealData d"
    by (simp add: js_or_def opt_member_def nullish_def truthy_json_of_MealData)
  have e: "extracted_error (json_of_MealData d) (JObj [(''structuredContent'', json_of_MealData d)]) = JUndefined"
    "extracted_error (json_of_MealData d) (JObj [(''result'', JObj [(''structuredContent'', json_of_MealData d)])]) = JUndefined"
    using assms(1)
    by (simp_all add: extracted_error_def json_of_MealData_fields js_or_def)
       (simp_all add: opt_member_def nullish_def)
  have m: "meals_of (json_of_MealData d) = JArr (map json_of_Meal ms)"
    using assms(2) by (simp add: meals_of_def json_of_MealData_fields js_or_def)
  have l: "member (JArr (map json_of_Meal ms)) ''length'' = Inr (JNum (of_nat (length ms)))"
    by (simp add: member_def nullish_def)
  have z: "JNum (of_nat (length ms)) \<noteq> JNum 0" using assms(3) by simp
  have t: "(if truthy (opt_member (json_of_MealData d) ''dailyTotals'')
            then Some (opt_member (json_of_MealData d) ''dailyTotals'') else None)
           = map_option json_of_Nutrients (dailyTotals d)"
    by (cases "dailyTotals d") (simp_all add: json_of_MealData_fields json_of_Nutrients_def)
  show "Macros_with_totals (JObj [(''structuredContent'', json_of_MealData d)]) =
           Inr (ReadyView (map_option json_of_Nutrients (dailyTotals d)) (map json_of_Meal ms))"
    unfolding Macros_with_totals_def md Let_def e m l and_then_simps t using z by simp
  show "Macros_with_totals (JObj [(''result'', JObj [(''structuredContent'', json_of_MealData d)])]) =
           Inr (ReadyView (map_option json_of_Nutrients (dailyTotals d)) (map json_of_Meal ms))"
    unfolding Macros_with_totals_def md2 Let_def e m l and_then_simps t using z by simp
qed

lemma normalized_wrapped:
  "normalized (JObj [(''structuredContent'', json_of_MealData d)]) = json_of_MealData d"
  "normalized (JObj [(''result'', JObj [(''structuredContent'', json_of_MealData d)])]) = json_of_MealData d"
  by (simp_all add: normalized_eq resolution_rules_def path_rule_def self_rule_def truthy_json_of_MealData)

lemma settled_view_typed_data:
  assumes "error d = None" "loggedMeals d = Some ms" "ms \<noteq> []"
  shows "settled_view (JObj [(''structuredContent'', json_of_MealData d)]) =
           Inr (ReadyView None (map json_of_Meal ms))"
    and "settled_view (JObj [(''result'', JObj [(''structuredContent'', json_of_MealData d)])]) =
           Inr (ReadyView None (map json_of_Meal ms))"
proof -
  let ?a = "JObj [(''structuredContent'', json_of_MealData d)]"
  let ?b = "JObj [(''result'', JObj [(''structuredContent'', json_of_MealData d)])]"
  have dl: "derived_loggedMeals ?a = JArr (map json_of_Meal ms)"
       "derived_loggedMeals ?b = JArr (map json_of_Meal ms)"
    using assms(2) by (simp_all add: derived_loggedMeals_def normalized_wrapped json_of_MealData_fields)
  have ty: "loggedMeals_typed ?a" "loggedMeals_typed ?b"
    by (simp_all add: loggedMeals_typed_def dl)
  have er: "error_of ?a = JUndefined" "error_of ?b = JUndefined"
    using assms(1)
    by (simp_all add: error_of_def normalized_wrapped extracted_error_def json_of_MealData_fields js_or_def)
       (simp_all add: opt_member_def nullish_def)
  have lr: "\<not> loading_rule ?a" "\<not> loading_rule ?b"
    using assms(3) by (simp_all add: loading_rule_def dl)
  show "settled_view ?a = Inr (ReadyView None (map json_of_Meal ms))"
    using assms(3) by (simp add: settled_view_typed [OF ty(1)] er lr dl)
  show "settled_view ?b = Inr (ReadyView None (map json_of_Meal ms))"
    using assms(3) by (simp add: settled_view_typed [OF ty(2)] er lr dl)
qed

text \<open>
  Claim C9, as stated, fails on the component of app/nmacros/page.tsx (lines 145-159): on
  the envelope of the specification's own scenario, whose MealData has a \<open>dailyTotals\<close>
  object and one meal, the Ready render holds the meal card and no daily-totals block.
\<close>

theorem nmacros_page_shows_no_daily_totals:
  "truthy (opt_member (normalized (JObj [(''result'', JObj [(''structuredContent'',
      json_of_MealData
        \<lparr>dailyTotals = Some \<lparr>calories = 657, protein = 30, carbs = 62, fat = 35\<rparr>,
         loggedMeals = Some [\<lparr>meal_name = ''Big Mac Meal'', meal_size = None, ingredients = [],
                              total_nutrients = \<lparr>calories = 657, protein = 30, carbs = 62, fat = 35\<rparr>\<rparr>],
         error = None\<rparr>)])])) ''dailyTotals'') \<and>
   settled_view (JObj [(''result'', JObj [(''structuredContent'',
      json_of_MealData
        \<lparr>dailyTotals = Some \<lparr>calories = 657, protein = 30, carbs = 62, fat = 35\<rparr>,
         loggedMeals = Some [\<lparr>meal_name = ''Big Mac Meal'', meal_size = None, ingredients = [],
                              total_nutrients = \<lparr>calories = 657, protein = 30, carbs = 62, fat = 35\<rparr>\<rparr>],
         error = None\<rparr>)])])
   = Inr (ReadyView None
       [json_of_Meal \<lparr>meal_name = ''Big Mac Meal'', meal_size = None, ingredients = [],
                      total_nutrients = \<lparr>calories = 657, protein = 30, carbs = 62, fat = 35\<rparr>\<rparr>])"
  by (simp add: settled_view_typed_data normalized_wrapped json_of_MealData_fields truthy_json_of_Nutrients)

text \<open>
  Claim C9, amended.  In the Ready state of the earlier component (unnamed/part_000, lines
  78-125) the daily-totals block is rendered if and only if MealData has a \<open>dailyTotals\<close>
  object; the block stands before the meal cards and shows the four fields through
  \<open>Math.round\<close>, the last three followed by \<open>g\<close>.  The component of app/nmacros/page.tsx
  renders the meal cards only, with or without \<open>dailyTotals\<close>.
\<close>

theorem daily_totals_block_by_component:
  "error d = None \<and> loggedMeals d = Some ms \<and> ms \<noteq> [] \<longrightarrow>
     Macros_with_totals (JObj [(''structuredContent'', json_of_MealData d)]) =
       Inr (ReadyView (map_option json_of_Nutrients (dailyTotals d)) (map json_of_Meal ms)) \<and>
     Macros_with_totals (JObj [(''result'', JObj [(''structuredContent'', json_of_MealData d)])]) =
       Inr (ReadyView (map_option json_of_Nutrients (dailyTotals d)) (map json_of_Meal ms)) \<and>
     ((map_option json_of_Nutrients (dailyTotals d) \<noteq> None) = (dailyTotals d \<noteq> None)) \<and>
     (\<forall>n. dailyTotals d = Some n \<longrightarrow>
        daily_totals_block n =
          [[Number_child (Math_round (calories n))],
           [Number_child (Math_round (protein n)), Text_child ''g''],
           [Number_child (Math_round (carbs n)), Text_child ''g''],
           [Number_child (Math_round (fat n)), Text_child ''g'']]) \<and>
     settled_view (JObj [(''structuredContent'', json_of_MealData d)]) =
       Inr (ReadyView None (map json_of_Meal ms)) \<and>
     settled_view (JObj [(''result'', JObj [(''structuredContent'', json_of_MealData d)])]) =
       Inr (ReadyView None (map json_of_Meal ms))"
  by (simp add: Macros_with_totals_typed settled_view_typed_data daily_totals_block_def)

text \<open>
  The Big Mac meal with and without daily totals, in the earlier component.
\<close>

theorem daily_totals_block_by_component_witness:
  "Macros_with_totals (JObj [(''structuredContent'',
      json_of_MealData
        \<lparr>dailyTotals = Some \<lparr>calories = 657, protein = 30, carbs = 62, fat = 35\<rparr>,
         loggedMeals = Some [\<lparr>meal_name = ''Big Mac Meal'', meal_size = None, ingredients = [],
                              total_nutrients = \<lparr>calories = 657, protein = 30, carbs = 62, fat = 35\<rparr>\<rparr>],
         error = None\<rparr>)])
   = Inr (ReadyView
       (Some (json_of_Nutrients \<lparr>calories = 657, protein = 30, carbs = 62, fat = 35\<rparr>))
       [json_of_Meal \<lparr>meal_name = ''Big Mac Meal'', meal_size = None, ingredients = [],
                      total_nutrients = \<lparr>calories = 657, protein = 30, carbs = 62, fat = 35\<rparr>\<rparr>]) \<and>
   Macros_with_totals (JObj [(''structuredContent'',
      json_of_MealData
        \<lparr>dailyTotals = None,
         loggedMeals = Some [\<lparr>meal_name = ''Big Mac Meal'', meal_size = None, ingredients = [],
                              total_nutrients = \<lparr>calories = 657, protein = 30, carbs = 62, fat = 35\<rparr>\<rparr>],
         error = None\<rparr>)])
   = Inr (ReadyView None
       [json_of_Meal \<lparr>meal_name = ''Big Mac Meal'', meal_size = None, ingredients = [],
                      total_nutrients = \<lparr>calories = 657, protein = 30, carbs = 62, fat = 35\<rparr>\<rparr>])"
  using daily_totals_block_by_component
    [of "\<lparr>dailyTotals = Some \<lparr>calories = 657, protein = 30, carbs = 62, fat = 35\<rparr>,
         loggedMeals = Some [\<lparr>meal_name = ''Big Mac Meal'', meal_size = None, ingredients = [],
                              total_nutrients = \<lparr>calories = 657, protein = 30, carbs = 62, fat = 35\<rparr>\<rparr>],
         error = None\<rparr>"
        "[\<lparr>meal_name = ''Big Mac Meal'', meal_size = None, ingredients = [],
                              total_nutrients = \<lparr>calories = 657, protein = 30, carbs = 62, fat = 35\<rparr>\<rparr>]"]
    daily_totals_block_by_component
    [of "\<lparr>dailyTotals = None,
         loggedMeals = Some [\<lparr>meal_name = ''Big Mac Meal'', meal_size = None, ingredients = [],
                              total_nutrients = \<lparr>calories = 657, protein = 30, carbs = 62, fat = 35\<rparr>\<rparr>],
         error = None\<rparr>"
        "[\<lparr>meal_name = ''Big Mac Meal'', meal_size = None, ingredients = [],
                              total_nutrients = \<lparr>calories = 657, protein = 30, carbs = 62, fat = 35\<rparr>\<rparr>]"]
  by simp

end
